theory Spec2Isabelle
  imports Complex_Main "HOL-Library.Word" "HOL-Library.Multiset" "HOL-Library.Char_ord"
    "HOL-Library.List_Lexorder"
begin

section \<open>The order aggregate (internal/domain/entities)\<close>

text \<open>
  The Go sources are embedded function by function. What the Go code takes from its
  environment is made an argument of the model: \<open>uuid.New()\<close> becomes an identifier
  handed in by the caller, \<open>time.Now()\<close> a time handed in by the caller. A method with
  a pointer receiver returns the updated receiver next to its Go result.

  Amounts are \<open>float64\<close> in Go. The model keeps the amount type a type variable
  \<open>'a\<close> that only has to provide \<open>0\<close>, \<open>+\<close>, \<open>*\<close> and the comparisons, with no law
  assumed of them; the conversion \<open>float64(quantity)\<close> is an argument, named \<open>float64\<close>.
  Every theorem stated for \<open>'a\<close> therefore holds for the rounding arithmetic of
  \<open>float64\<close>, which is modelled below, as well as for exact decimals; the examples are
  evaluated over the rationals where rounding plays no part.
\<close>

type_synonym uuid = "128 word"

definition uuid_Nil :: uuid where
  "uuid_Nil = 0"

type_synonym Time = int

type_synonym OrderStatus = string

definition OrderStatusPending :: OrderStatus where
  "OrderStatusPending = ''pending''"

definition OrderStatusConfirmed :: OrderStatus where
  "OrderStatusConfirmed = ''confirmed''"

definition OrderStatusProcessing :: OrderStatus where
  "OrderStatusProcessing = ''processing''"

definition OrderStatusShipped :: OrderStatus where
  "OrderStatusShipped = ''shipped''"

definition OrderStatusDelivered :: OrderStatus where
  "OrderStatusDelivered = ''delivered''"

definition OrderStatusCancelled :: OrderStatus where
  "OrderStatusCancelled = ''cancelled''"

definition OrderStatusRefunded :: OrderStatus where
  "OrderStatusRefunded = ''refunded''"

lemmas OrderStatus_defs =
  OrderStatusPending_def OrderStatusConfirmed_def OrderStatusProcessing_def
  OrderStatusShipped_def OrderStatusDelivered_def OrderStatusCancelled_def
  OrderStatusRefunded_def

text \<open>
  A value of Go's \<open>interface{}\<close> as the metadata and event data hold it: what
  \<open>encoding/json\<close> decodes into, and the strings and ints the code stores itself.
\<close>

datatype 'a any =
    AnyNil
  | AnyBool bool
  | AnyInt int
  | AnyFloat 'a
  | AnyString string
  | AnySlice "'a any list"
  | AnyMap "(string \<times> 'a any) list"

record 'a OrderItem =
  ItemID :: uuid
  ItemOrderID :: uuid
  ProductID :: uuid
  Name :: string
  Price :: 'a
  Quantity :: int
  Total :: 'a

record Address =
  AddrID :: uuid
  AddrOrderID :: uuid
  Type :: string
  Street :: string
  City :: string
  State :: string
  Country :: string
  ZipCode :: string

record 'a Order =
  ID :: uuid
  CustomerID :: uuid
  Email :: string
  Status :: OrderStatus
  TotalAmount :: 'a
  Currency :: string
  Items :: "'a OrderItem list"
  CreatedAt :: Time
  UpdatedAt :: Time
  ShippingAddress :: "Address option"
  BillingAddress :: "Address option"
  Metadata :: "string \<rightharpoonup> 'a any"

record 'a OrderEvent =
  EventType :: string
  EventID :: uuid
  EvOrderID :: uuid
  EvCustomerID :: uuid
  EvStatus :: OrderStatus
  EvTotalAmount :: 'a
  EvCurrency :: string
  Timestamp :: Time
  Data :: "string \<rightharpoonup> 'a any"

definition EventOrderCreated :: string where
  "EventOrderCreated = ''order.created''"

definition EventOrderConfirmed :: string where
  "EventOrderConfirmed = ''order.confirmed''"

definition EventOrderCancelled :: string where
  "EventOrderCancelled = ''order.cancelled''"

definition EventOrderShipped :: string where
  "EventOrderShipped = ''order.shipped''"

definition EventOrderDelivered :: string where
  "EventOrderDelivered = ''order.delivered''"

definition EventOrderRefunded :: string where
  "EventOrderRefunded = ''order.refunded''"

lemmas Event_defs =
  EventOrderCreated_def EventOrderConfirmed_def EventOrderCancelled_def
  EventOrderShipped_def EventOrderDelivered_def EventOrderRefunded_def

subsection \<open>Errors (errors.go)\<close>

text \<open>
  \<open>fmt.Sprintf\<close> is not evaluated: a message keeps its format string and arguments
  (\<open>Rendered\<close> is an argument that is itself the text of a message).
  \<open>Errorf\<close> is \<open>fmt.Errorf\<close> with a \<open>%w\<close> verb, wrapping the error it is given;
  \<open>DriverError\<close> is an error raised by a collaborator outside the repository's code
  (the SQL driver, the Kafka writer); \<open>NilPointerPanic\<close> is a nil dereference.
\<close>

datatype 'a message = Sprintf string "'a fmtarg list"
and 'a fmtarg = FmtArg "'a any" | Rendered "'a message"

datatype 'a error =
    ValidationError "'a message"
  | InvalidStatusTransitionError "'a message" OrderStatus OrderStatus
  | OrderNotFoundError uuid
  | DriverError string
  | Errorf string "'a error"
  | NilPointerPanic

definition NewValidationError :: "string \<Rightarrow> 'a fmtarg list \<Rightarrow> 'a error" where
  "NewValidationError format args = ValidationError (Sprintf format args)"

definition NewInvalidStatusTransitionError :: "OrderStatus \<Rightarrow> OrderStatus \<Rightarrow> 'a error" where
  "NewInvalidStatusTransitionError from to =
     InvalidStatusTransitionError
       (Sprintf ''cannot transition from %s to %s'' [FmtArg (AnyString from), FmtArg (AnyString to)]) from to"

definition NewOrderNotFoundError :: "uuid \<Rightarrow> 'a error" where
  "NewOrderNotFoundError orderID = OrderNotFoundError orderID"

text \<open>The \<open>Type\<close> string of the embedded \<open>DomainError\<close>, through any \<open>%w\<close> wrapping.\<close>

fun error_Type :: "'a error \<Rightarrow> string option" where
  "error_Type (ValidationError m) = Some ''VALIDATION_ERROR''"
| "error_Type (InvalidStatusTransitionError m f t) = Some ''INVALID_STATUS_TRANSITION''"
| "error_Type (OrderNotFoundError i) = Some ''ORDER_NOT_FOUND''"
| "error_Type (DriverError s) = None"
| "error_Type (Errorf s e) = error_Type e"
| "error_Type NilPointerPanic = None"

subsection \<open>Order.UpdateStatus and Order.canTransitionTo\<close>

definition validTransitions :: "(OrderStatus \<times> OrderStatus list) list" where
  "validTransitions =
     [(OrderStatusPending, [OrderStatusConfirmed, OrderStatusCancelled]),
      (OrderStatusConfirmed, [OrderStatusProcessing, OrderStatusCancelled]),
      (OrderStatusProcessing, [OrderStatusShipped, OrderStatusCancelled]),
      (OrderStatusShipped, [OrderStatusDelivered]),
      (OrderStatusDelivered, [OrderStatusRefunded]),
      (OrderStatusCancelled, []),
      (OrderStatusRefunded, [])]"

text \<open>The \<open>for _, status := range allowedStatuses\<close> loop.\<close>

fun status_listed :: "OrderStatus list \<Rightarrow> OrderStatus \<Rightarrow> bool" where
  "status_listed [] newStatus = False"
| "status_listed (status # rest) newStatus =
     (if status = newStatus then True else status_listed rest newStatus)"

definition canTransitionTo :: "'a Order \<Rightarrow> OrderStatus \<Rightarrow> bool" where
  "canTransitionTo order newStatus =
     (case map_of validTransitions (Status order) of
        None \<Rightarrow> False
      | Some allowedStatuses \<Rightarrow> status_listed allowedStatuses newStatus)"

definition UpdateStatus :: "'a Order \<Rightarrow> OrderStatus \<Rightarrow> Time \<Rightarrow> 'a error option \<times> 'a Order" where
  "UpdateStatus order newStatus now =
     (if \<not> canTransitionTo order newStatus
      then (Some (NewInvalidStatusTransitionError (Status order) newStatus), order)
      else (None, order\<lparr>Status := newStatus, UpdatedAt := now\<rparr>))"

definition IsActive :: "'a Order \<Rightarrow> bool" where
  "IsActive order =
     (Status order \<noteq> OrderStatusCancelled \<and>
      Status order \<noteq> OrderStatusRefunded \<and>
      Status order \<noteq> OrderStatusDelivered)"

definition IsFinal :: "'a Order \<Rightarrow> bool" where
  "IsFinal order =
     (Status order = OrderStatusCancelled \<or>
      Status order = OrderStatusRefunded \<or>
      Status order = OrderStatusDelivered)"

text \<open>\<open>DomainError.Error()\<close>, the text of a validation error.\<close>

definition ValidationError_Error :: "'a message \<Rightarrow> 'a message" where
  "ValidationError_Error m =
     Sprintf ''%s: %s'' [FmtArg (AnyString ''VALIDATION_ERROR''), Rendered m]"

subsection \<open>NewOrder, AddItem, RemoveItem, calculateTotal\<close>

definition NewOrder :: "uuid \<Rightarrow> uuid \<Rightarrow> string \<Rightarrow> Time \<Rightarrow> ('a::zero) Order" where
  "NewOrder newID customerID email now =
     \<lparr>ID = newID,
      CustomerID = customerID,
      Email = email,
      Status = OrderStatusPending,
      TotalAmount = 0,
      Currency = ''USD'',
      Items = [],
      CreatedAt = now,
      UpdatedAt = now,
      ShippingAddress = None,
      BillingAddress = None,
      Metadata = Map.empty\<rparr>"

definition calculateTotal :: "('a::{zero,plus}) Order \<Rightarrow> 'a Order" where
  "calculateTotal order =
     order\<lparr>TotalAmount := foldl (\<lambda>total item. total + Total item) 0 (Items order)\<rparr>"

definition AddItem ::
  "(int \<Rightarrow> 'a) \<Rightarrow> ('a::{zero,plus,times}) Order \<Rightarrow> uuid \<Rightarrow> uuid \<Rightarrow> string \<Rightarrow> 'a \<Rightarrow> int \<Rightarrow> Time
     \<Rightarrow> 'a Order" where
  "AddItem float64 order newID productID name price quantity now =
     (let item = \<lparr>ItemID = newID,
                  ItemOrderID = ID order,
                  ProductID = productID,
                  Name = name,
                  Price = price,
                  Quantity = quantity,
                  Total = price * float64 quantity\<rparr>
      in (calculateTotal (order\<lparr>Items := Items order @ [item]\<rparr>))\<lparr>UpdatedAt := now\<rparr>)"

text \<open>
  The loop of \<open>RemoveItem\<close>: the items without the first one whose ID is \<open>itemID\<close>, or
  \<open>None\<close> when the loop ends without a match.
\<close>

fun remove_first :: "'a OrderItem list \<Rightarrow> uuid \<Rightarrow> 'a OrderItem list option" where
  "remove_first [] itemID = None"
| "remove_first (item # rest) itemID =
     (if ItemID item = itemID then Some rest
      else (case remove_first rest itemID of
              None \<Rightarrow> None
            | Some rest' \<Rightarrow> Some (item # rest')))"

definition RemoveItem :: "('a::{zero,plus}) Order \<Rightarrow> uuid \<Rightarrow> Time \<Rightarrow> bool \<times> 'a Order" where
  "RemoveItem order itemID now =
     (case remove_first (Items order) itemID of
        Some items \<Rightarrow> (True, (calculateTotal (order\<lparr>Items := items\<rparr>))\<lparr>UpdatedAt := now\<rparr>)
      | None \<Rightarrow> (False, order))"

text \<open>Go's \<open>int\<close> is 64 bits wide here: a sum of ints wraps around.\<close>

definition wrap_int64 :: "int \<Rightarrow> int" where
  "wrap_int64 x = (x + 2 ^ 63) mod 2 ^ 64 - 2 ^ 63"

definition GetItemCount :: "'a Order \<Rightarrow> int" where
  "GetItemCount order =
     foldl (\<lambda>count item. wrap_int64 (count + Quantity item)) 0 (Items order)"

definition SetShippingAddress :: "'a Order \<Rightarrow> Address \<Rightarrow> uuid \<Rightarrow> Time \<Rightarrow> 'a Order" where
  "SetShippingAddress order address newID now =
     order\<lparr>ShippingAddress :=
              Some (address\<lparr>AddrID := newID, AddrOrderID := ID order, Type := ''shipping''\<rparr>),
           UpdatedAt := now\<rparr>"

definition SetBillingAddress :: "'a Order \<Rightarrow> Address \<Rightarrow> uuid \<Rightarrow> Time \<Rightarrow> 'a Order" where
  "SetBillingAddress order address newID now =
     order\<lparr>BillingAddress :=
              Some (address\<lparr>AddrID := newID, AddrOrderID := ID order, Type := ''billing''\<rparr>),
           UpdatedAt := now\<rparr>"

definition ToEvent :: "'a Order \<Rightarrow> string \<Rightarrow> uuid \<Rightarrow> Time \<Rightarrow> 'a OrderEvent" where
  "ToEvent order eventType newID now =
     \<lparr>EventType = eventType,
      EventID = newID,
      EvOrderID = ID order,
      EvCustomerID = CustomerID order,
      EvStatus = Status order,
      EvTotalAmount = TotalAmount order,
      EvCurrency = Currency order,
      Timestamp = now,
      Data = [''email'' \<mapsto> AnyString (Email order),
              ''item_count'' \<mapsto> AnyInt (GetItemCount order)]\<rparr>"

subsection \<open>Order.Validate and OrderItem.Validate\<close>

definition OrderItem_Validate ::
  "(int \<Rightarrow> 'a) \<Rightarrow> ('a::{zero,times,ord}) OrderItem \<Rightarrow> 'a error option" where
  "OrderItem_Validate float64 item =
     (if ItemID item = uuid_Nil then Some (NewValidationError ''item ID cannot be empty'' [])
      else if ProductID item = uuid_Nil
        then Some (NewValidationError ''product ID cannot be empty'' [])
      else if Name item = [] then Some (NewValidationError ''item name cannot be empty'' [])
      else if Price item \<le> 0
        then Some (NewValidationError ''item price must be greater than zero'' [])
      else if Quantity item \<le> 0
        then Some (NewValidationError ''item quantity must be greater than zero'' [])
      else (let expectedTotal = Price item * float64 (Quantity item)
            in if Total item \<noteq> expectedTotal
               then Some (NewValidationError
                            ''item total (%f) doesn't match price * quantity (%f)''
                            [FmtArg (AnyFloat (Total item)), FmtArg (AnyFloat expectedTotal)])
               else None))"

text \<open>The text \<open>err.Error()\<close> of an error; \<open>OrderItem.Validate\<close> returns validation errors only.\<close>

fun error_text :: "'a error \<Rightarrow> 'a message" where
  "error_text (ValidationError m) = ValidationError_Error m"
| "error_text e = Sprintf ''%v'' []"

text \<open>The loop \<open>for i, item := range o.Items\<close> of \<open>Order.Validate\<close>, from index \<open>i\<close> on.\<close>

fun Validate_items ::
  "(int \<Rightarrow> 'a) \<Rightarrow> int \<Rightarrow> ('a::{zero,times,ord}) OrderItem list \<Rightarrow> 'a error option" where
  "Validate_items float64 i [] = None"
| "Validate_items float64 i (item # rest) =
     (case OrderItem_Validate float64 item of
        Some err \<Rightarrow>
          Some (NewValidationError ''item %d: %s'' [FmtArg (AnyInt i), Rendered (error_text err)])
      | None \<Rightarrow> Validate_items float64 (i + 1) rest)"

definition Validate :: "(int \<Rightarrow> 'a) \<Rightarrow> ('a::{zero,times,ord}) Order \<Rightarrow> 'a error option" where
  "Validate float64 order =
     (if ID order = uuid_Nil then Some (NewValidationError ''order ID cannot be empty'' [])
      else if CustomerID order = uuid_Nil
        then Some (NewValidationError ''customer ID cannot be empty'' [])
      else if Email order = [] then Some (NewValidationError ''email cannot be empty'' [])
      else if length (Items order) = 0
        then Some (NewValidationError ''order must have at least one item'' [])
      else if TotalAmount order \<le> 0
        then Some (NewValidationError ''total amount must be greater than zero'' [])
      else Validate_items float64 0 (Items order))"

section \<open>float64\<close>

text \<open>
  Go's \<open>float64\<close> is the binary64 format of IEEE 754 with rounding to nearest, ties to
  even. A value is a finite number, given by the rational it denotes, an infinity
  (\<open>Infinity True\<close> is the negative one) or NaN. The sign of a zero is left out: sums,
  products and comparisons, which is all the code does with amounts, never tell the two
  zeros apart.

  A finite binary64 number is an integer of at most 53 bits times a power of two, the
  quantum, whose exponent is between -1074 and 971. \<open>quantum_exponent\<close> looks for the
  exponent of the quantum of a number of magnitude \<open>y * 2^e\<close>, from \<open>e = -1074\<close> upwards;
  \<open>round64\<close> rounds a rational to the nearest multiple of its quantum, and to an infinity
  from \<open>2^1024\<close> on.
\<close>

datatype float64 = Finite rat | Infinity bool | NaN

definition round_half_even :: "rat \<Rightarrow> int" where
  "round_half_even x =
     (let n = \<lfloor>x\<rfloor>; r = x - of_int n
      in if r < 1 / 2 then n else if r > 1 / 2 then n + 1 else if even n then n else n + 1)"

function quantum_exponent :: "rat \<Rightarrow> int \<Rightarrow> int" where
  "quantum_exponent y e =
     (if y < 2 ^ 53 \<or> e \<ge> 972 then e else quantum_exponent (y / 2) (e + 1))"
  by pat_completeness auto
termination
  by (relation "measure (\<lambda>(y, e). nat (972 - e))") auto

declare quantum_exponent.simps [simp del]

definition round64 :: "rat \<Rightarrow> float64" where
  "round64 x =
     (let e = quantum_exponent (\<bar>x\<bar> * 2 ^ 1074) (- 1074);
          y = of_int (round_half_even (x / 2 powi e)) * 2 powi e
      in if \<bar>y\<bar> \<ge> 2 ^ 1024 then Infinity (x < 0) else Finite y)"

instantiation float64 :: "{zero, plus, times, ord}"
begin

definition zero_float64 :: float64 where
  "zero_float64 = Finite 0"

fun plus_float64 :: "float64 \<Rightarrow> float64 \<Rightarrow> float64" where
  "plus_float64 (Finite a) (Finite b) = round64 (a + b)"
| "plus_float64 (Finite a) (Infinity negative) = Infinity negative"
| "plus_float64 (Infinity negative) (Finite b) = Infinity negative"
| "plus_float64 (Infinity negative) (Infinity negative') =
     (if negative = negative' then Infinity negative else NaN)"
| "plus_float64 NaN y = NaN"
| "plus_float64 x NaN = NaN"

fun times_float64 :: "float64 \<Rightarrow> float64 \<Rightarrow> float64" where
  "times_float64 (Finite a) (Finite b) = round64 (a * b)"
| "times_float64 (Finite a) (Infinity negative) =
     (if a = 0 then NaN else Infinity (negative \<noteq> (a < 0)))"
| "times_float64 (Infinity negative) (Finite b) =
     (if b = 0 then NaN else Infinity (negative \<noteq> (b < 0)))"
| "times_float64 (Infinity negative) (Infinity negative') = Infinity (negative \<noteq> negative')"
| "times_float64 NaN y = NaN"
| "times_float64 x NaN = NaN"

fun less_eq_float64 :: "float64 \<Rightarrow> float64 \<Rightarrow> bool" where
  "less_eq_float64 (Finite a) (Finite b) = (a \<le> b)"
| "less_eq_float64 (Finite a) (Infinity negative) = (\<not> negative)"
| "less_eq_float64 (Infinity negative) (Finite b) = negative"
| "less_eq_float64 (Infinity negative) (Infinity negative') = (negative \<or> \<not> negative')"
| "less_eq_float64 NaN y = False"
| "less_eq_float64 x NaN = False"

fun less_float64 :: "float64 \<Rightarrow> float64 \<Rightarrow> bool" where
  "less_float64 (Finite a) (Finite b) = (a < b)"
| "less_float64 (Finite a) (Infinity negative) = (\<not> negative)"
| "less_float64 (Infinity negative) (Finite b) = negative"
| "less_float64 (Infinity negative) (Infinity negative') = (negative \<and> \<not> negative')"
| "less_float64 NaN y = False"
| "less_float64 x NaN = False"

instance ..

end

text \<open>The conversion \<open>float64(n)\<close> of an int, and a decimal literal read as a \<open>float64\<close>.\<close>

definition float64_of_int :: "int \<Rightarrow> float64" where
  "float64_of_int n = round64 (of_int n)"

definition float64_of_decimal :: "rat \<Rightarrow> float64" where
  "float64_of_decimal d = round64 d"

section \<open>The use cases (internal/usecase)\<close>

text \<open>
  The use cases reach the repository and the publisher through Go interfaces. An
  interface is a record of functions over a state the use case cannot look into: \<open>'s\<close>
  for what the repository stores, \<open>'p\<close> for what the publisher has sent. A method returns
  its Go result and the state it leaves. The logger has no part in any result and is left
  out. The \<open>k\<close>-th call of \<open>uuid.New()\<close> made by a use case returns \<open>uuids k\<close>, the
  \<open>k\<close>-th call of \<open>time.Now()\<close> returns \<open>nows k\<close>. A request arrives through a pointer,
  which may be nil: \<open>None\<close>.
\<close>

record 'a OrderFilters =
  FCustomerID :: "uuid option"
  FStatus :: "OrderStatus option"
  FEmail :: "string option"
  FMinAmount :: "'a option"
  FMaxAmount :: "'a option"
  FDateFrom :: "string option"
  FDateTo :: "string option"
  FCurrency :: "string option"
  FLimit :: int
  FOffset :: int
  FSortBy :: string
  FSortOrder :: string

record ('a, 's) OrderRepository =
  repo_Create :: "'a Order \<Rightarrow> 's \<Rightarrow> 'a error option \<times> 's"
  repo_GetByID :: "uuid \<Rightarrow> 's \<Rightarrow> ('a error + 'a Order) \<times> 's"
  repo_Update :: "'a Order \<Rightarrow> 's \<Rightarrow> 'a error option \<times> 's"
  repo_List :: "'a OrderFilters \<Rightarrow> 's \<Rightarrow> ('a error + 'a Order list) \<times> 's"
  repo_Count :: "'a OrderFilters \<Rightarrow> 's \<Rightarrow> ('a error + int) \<times> 's"

record ('a, 'p) EventPublisher =
  PublishOrderEvent :: "'a OrderEvent \<Rightarrow> 'p \<Rightarrow> 'a error option \<times> 'p"

subsection \<open>strings.Contains and strings.Split\<close>

fun strings_Contains :: "string \<Rightarrow> string \<Rightarrow> bool" where
  "strings_Contains [] substr = (substr = [])"
| "strings_Contains (c # s) substr =
     (take (length substr) (c # s) = substr \<or> strings_Contains s substr)"

text \<open>
  \<open>strings.Split(s, sep)\<close> for a separator of one byte, which is how the code calls it:
  \<open>split_byte sep cur s\<close> is the list of parts of \<open>s\<close>, the first one prefixed by \<open>cur\<close>.
\<close>

fun split_byte :: "char \<Rightarrow> string \<Rightarrow> string \<Rightarrow> string list" where
  "split_byte sep cur [] = [cur]"
| "split_byte sep cur (c # s) =
     (if c = sep then cur # split_byte sep [] s else split_byte sep (cur @ [c]) s)"

definition strings_Split :: "string \<Rightarrow> char \<Rightarrow> string list" where
  "strings_Split s sep = split_byte sep [] s"

subsection \<open>CreateOrderUseCase\<close>

record 'a CreateOrderItemRequest =
  ReqProductID :: uuid
  ReqName :: string
  ReqPrice :: 'a
  ReqQuantity :: int

record CreateAddressRequest =
  ReqStreet :: string
  ReqCity :: string
  ReqState :: string
  ReqCountry :: string
  ReqZipCode :: string

record 'a CreateOrderRequest =
  ReqCustomerID :: uuid
  ReqEmail :: string
  ReqItems :: "'a CreateOrderItemRequest list"
  ReqCurrency :: string
  ReqMetadata :: "(string \<rightharpoonup> 'a any) option"
  ReqShippingAddress :: "CreateAddressRequest option"
  ReqBillingAddress :: "CreateAddressRequest option"

record 'a CreateOrderResponse =
  RespOrder :: "'a Order"
  RespMessage :: string

definition validateEmail :: "string \<Rightarrow> bool" where
  "validateEmail email =
     (if length email < 5 then False
      else if \<not> strings_Contains email ''@'' then False
      else (let parts = strings_Split email (CHR ''@'')
            in if length parts = 2
               then (if length (parts ! 1) \<ge> 3 then strings_Contains (parts ! 1) ''.'' else False)
               else False))"

text \<open>The loop \<open>for i, item := range req.Items\<close> of \<open>validateRequest\<close>, from index \<open>i\<close> on.\<close>

fun validateRequest_items ::
  "int \<Rightarrow> ('a::{zero,ord}) CreateOrderItemRequest list \<Rightarrow> 'a error option" where
  "validateRequest_items i [] = None"
| "validateRequest_items i (item # rest) =
     (if ReqProductID item = uuid_Nil
        then Some (NewValidationError ''item %d: product_id is required'' [FmtArg (AnyInt i)])
      else if ReqName item = []
        then Some (NewValidationError ''item %d: name is required'' [FmtArg (AnyInt i)])
      else if ReqPrice item \<le> 0
        then Some (NewValidationError ''item %d: price must be greater than 0'' [FmtArg (AnyInt i)])
      else if ReqQuantity item \<le> 0
        then Some (NewValidationError ''item %d: quantity must be greater than 0''
                     [FmtArg (AnyInt i)])
      else validateRequest_items (i + 1) rest)"

fun CreateOrder_validateRequest ::
  "('a::{zero,ord}) CreateOrderRequest option \<Rightarrow> 'a error option" where
  "CreateOrder_validateRequest None = Some (NewValidationError ''request cannot be nil'' [])"
| "CreateOrder_validateRequest (Some req) =
     (if ReqCustomerID req = uuid_Nil
        then Some (NewValidationError ''customer_id is required'' [])
      else if ReqEmail req = [] then Some (NewValidationError ''email is required'' [])
      else if \<not> validateEmail (ReqEmail req)
        then Some (NewValidationError ''invalid email format'' [])
      else if length (ReqItems req) = 0
        then Some (NewValidationError ''at least one item is required'' [])
      else validateRequest_items 0 (ReqItems req))"

text \<open>
  The loop \<open>for _, item := range req.Items\<close> of \<open>Execute\<close>; the item at hand is the one
  whose \<open>AddItem\<close> makes the \<open>k\<close>-th calls of \<open>uuid.New()\<close> and \<open>time.Now()\<close>.
\<close>

fun add_items ::
  "(int \<Rightarrow> 'a) \<Rightarrow> (nat \<Rightarrow> uuid) \<Rightarrow> (nat \<Rightarrow> Time) \<Rightarrow> nat \<Rightarrow> ('a::{zero,plus,times}) Order
     \<Rightarrow> 'a CreateOrderItemRequest list \<Rightarrow> 'a Order" where
  "add_items float64 uuids nows k order [] = order"
| "add_items float64 uuids nows k order (item # rest) =
     add_items float64 uuids nows (Suc k)
       (AddItem float64 order (uuids k) (ReqProductID item) (ReqName item) (ReqPrice item)
          (ReqQuantity item) (nows k))
       rest"

definition address_of_request :: "CreateAddressRequest \<Rightarrow> Address" where
  "address_of_request r =
     \<lparr>AddrID = uuid_Nil, AddrOrderID = uuid_Nil, Type = [],
      Street = ReqStreet r, City = ReqCity r, State = ReqState r,
      Country = ReqCountry r, ZipCode = ReqZipCode r\<rparr>"

text \<open>
  The order \<open>Execute\<close> builds from a valid request, lines 92 to 132, and the number of
  \<open>uuid.New()\<close> calls (equally, of \<open>time.Now()\<close> calls) made while building it.
\<close>

definition build_order ::
  "(int \<Rightarrow> 'a) \<Rightarrow> (nat \<Rightarrow> uuid) \<Rightarrow> (nat \<Rightarrow> Time) \<Rightarrow> ('a::{zero,plus,times}) CreateOrderRequest
     \<Rightarrow> 'a Order \<times> nat" where
  "build_order float64 uuids nows req =
     (let order0 = NewOrder (uuids 0) (ReqCustomerID req) (ReqEmail req) (nows 0);
          order1 = (if ReqCurrency req \<noteq> [] then order0\<lparr>Currency := ReqCurrency req\<rparr>
                    else order0);
          order2 = (case ReqMetadata req of
                      None \<Rightarrow> order1
                    | Some m \<Rightarrow> order1\<lparr>Metadata := Metadata order1 ++ m\<rparr>);
          order3 = add_items float64 uuids nows 1 order2 (ReqItems req);
          k3 = 1 + length (ReqItems req);
          (order4, k4) =
            (case ReqShippingAddress req of
               None \<Rightarrow> (order3, k3)
             | Some r \<Rightarrow>
                 (SetShippingAddress order3 (address_of_request r) (uuids k3) (nows k3),
                  Suc k3))
      in (case ReqBillingAddress req of
            None \<Rightarrow> (order4, k4)
          | Some r \<Rightarrow>
              (SetBillingAddress order4 (address_of_request r) (uuids k4) (nows k4),
               Suc k4)))"

definition CreateOrder_Execute ::
  "(int \<Rightarrow> 'a) \<Rightarrow> ('a, 's) OrderRepository \<Rightarrow> ('a, 'p) EventPublisher
     \<Rightarrow> (nat \<Rightarrow> uuid) \<Rightarrow> (nat \<Rightarrow> Time)
     \<Rightarrow> ('a::{zero,plus,times,ord}) CreateOrderRequest option \<Rightarrow> 's \<Rightarrow> 'p
     \<Rightarrow> ('a error + 'a CreateOrderResponse) \<times> 's \<times> 'p" where
  "CreateOrder_Execute float64 orderRepo publisher uuids nows reqp s p =
     (case CreateOrder_validateRequest reqp of
        Some err \<Rightarrow>
          (case reqp of
             None \<Rightarrow> (Inl NilPointerPanic, s, p)
           | Some req \<Rightarrow> (Inl (Errorf ''validation failed: %w'' err), s, p))
      | None \<Rightarrow>
          (case reqp of
             None \<Rightarrow> (Inl NilPointerPanic, s, p)
           | Some req \<Rightarrow>
               (let (order, k) = build_order float64 uuids nows req
                in case Validate float64 order of
                     Some err \<Rightarrow> (Inl (Errorf ''order validation failed: %w'' err), s, p)
                   | None \<Rightarrow>
                       (case repo_Create orderRepo order s of
                          (Some err, s') \<Rightarrow>
                            (Inl (Errorf ''failed to save order: %w'' err), s', p)
                        | (None, s') \<Rightarrow>
                            (let event = ToEvent order EventOrderCreated (uuids k) (nows k);
                                 (perr, p') = PublishOrderEvent publisher event p
                             in (Inr \<lparr>RespOrder = order,
                                      RespMessage = ''Order created successfully''\<rparr>,
                                 s', p'))))))"

subsection \<open>UpdateOrderStatusUseCase\<close>

record UpdateOrderStatusRequest =
  OrderID :: uuid
  NewStatus :: OrderStatus
  Reason :: string

record 'a UpdateOrderStatusResponse =
  UpdOrder :: "'a Order"
  UpdMessage :: "'a message"
  OldStatus :: OrderStatus
  RespNewStatus :: OrderStatus

definition validStatuses :: "OrderStatus list" where
  "validStatuses =
     [OrderStatusPending, OrderStatusConfirmed, OrderStatusProcessing, OrderStatusShipped,
      OrderStatusDelivered, OrderStatusCancelled, OrderStatusRefunded]"

fun UpdateOrderStatus_validateRequest :: "UpdateOrderStatusRequest option \<Rightarrow> 'a error option" where
  "UpdateOrderStatus_validateRequest None =
     Some (NewValidationError ''request cannot be nil'' [])"
| "UpdateOrderStatus_validateRequest (Some req) =
     (if OrderID req = uuid_Nil then Some (NewValidationError ''order_id is required'' [])
      else if NewStatus req = [] then Some (NewValidationError ''new_status is required'' [])
      else if \<not> status_listed validStatuses (NewStatus req)
        then Some (NewValidationError ''invalid status: %s'' [FmtArg (AnyString (NewStatus req))])
      else None)"

text \<open>The \<open>switch req.NewStatus\<close> of \<open>Execute\<close>.\<close>

definition status_eventType :: "OrderStatus \<Rightarrow> string" where
  "status_eventType newStatus =
     (if newStatus = OrderStatusConfirmed then EventOrderConfirmed
      else if newStatus = OrderStatusCancelled then EventOrderCancelled
      else if newStatus = OrderStatusShipped then EventOrderShipped
      else if newStatus = OrderStatusDelivered then EventOrderDelivered
      else if newStatus = OrderStatusRefunded then EventOrderRefunded
      else ''order.status_changed'')"

text \<open>
  Lines 113 to 115: the event built from the order at hand, with \<open>old_status\<close> and
  \<open>change_reason\<close> put into its data.
\<close>

definition status_event ::
  "'a Order \<Rightarrow> OrderStatus \<Rightarrow> UpdateOrderStatusRequest \<Rightarrow> uuid \<Rightarrow> Time \<Rightarrow> 'a OrderEvent" where
  "status_event order oldStatus req newID now =
     (let event = ToEvent order (status_eventType (NewStatus req)) newID now
      in event\<lparr>Data := (Data event)(''old_status'' \<mapsto> AnyString oldStatus,
                                      ''change_reason'' \<mapsto> AnyString (Reason req))\<rparr>)"

definition UpdateOrderStatus_Execute ::
  "('a, 's) OrderRepository \<Rightarrow> ('a, 'p) EventPublisher \<Rightarrow> (nat \<Rightarrow> uuid) \<Rightarrow> (nat \<Rightarrow> Time)
     \<Rightarrow> UpdateOrderStatusRequest option \<Rightarrow> 's \<Rightarrow> 'p
     \<Rightarrow> ('a error + 'a UpdateOrderStatusResponse) \<times> 's \<times> 'p" where
  "UpdateOrderStatus_Execute orderRepo publisher uuids nows reqp s p =
     (case UpdateOrderStatus_validateRequest reqp of
        Some err \<Rightarrow>
          (case reqp of
             None \<Rightarrow> (Inl NilPointerPanic, s, p)
           | Some req \<Rightarrow> (Inl (Errorf ''validation failed: %w'' err), s, p))
      | None \<Rightarrow>
          (case reqp of
             None \<Rightarrow> (Inl NilPointerPanic, s, p)
           | Some req \<Rightarrow>
               (case repo_GetByID orderRepo (OrderID req) s of
                  (Inl err, s1) \<Rightarrow> (Inl (Errorf ''failed to get order: %w'' err), s1, p)
                | (Inr order0, s1) \<Rightarrow>
                    (let oldStatus = Status order0
                     in case UpdateStatus order0 (NewStatus req) (nows 0) of
                          (Some err, order1) \<Rightarrow>
                            (Inl (Errorf ''status update failed: %w'' err), s1, p)
                        | (None, order1) \<Rightarrow>
                            (let order2 =
                                   (if Reason req \<noteq> []
                                    then order1\<lparr>Metadata :=
                                           (Metadata order1)(''status_change_reason'' \<mapsto>
                                              AnyString (Reason req))\<rparr>
                                    else order1)
                             in case repo_Update orderRepo order2 s1 of
                                  (Some err, s2) \<Rightarrow>
                                    (Inl (Errorf ''failed to save order: %w'' err), s2, p)
                                | (None, s2) \<Rightarrow>
                                    (let event = status_event order2 oldStatus req (uuids 0) (nows 1);
                                         (perr, p') = PublishOrderEvent publisher event p
                                     in (Inr \<lparr>UpdOrder = order2,
                                              UpdMessage =
                                                Sprintf ''Order status updated from %s to %s''
                                                  [FmtArg (AnyString oldStatus),
                                                   FmtArg (AnyString (NewStatus req))],
                                              OldStatus = oldStatus,
                                              RespNewStatus = NewStatus req\<rparr>,
                                         s2, p')))))))"

subsection \<open>GetOrderUseCase\<close>



subsection \<open>ListOrdersUseCase\<close>

record 'a ListOrdersRequest =
  LCustomerID :: "uuid option"
  LStatus :: "OrderStatus option"
  LEmail :: "string option"
  MinAmount :: "'a option"
  MaxAmount :: "'a option"
  DateFrom :: "string option"
  DateTo :: "string option"
  LCurrency :: "string option"
  Limit :: int
  Offset :: int
  SortBy :: string
  SortOrder :: string

record 'a ListOrdersResponse =
  Orders :: "'a Order list"
  TotalCount :: int
  RespLimit :: int
  RespOffset :: int

definition validSortFields :: "string list" where
  "validSortFields = [''created_at'', ''updated_at'', ''total_amount'', ''status'']"

text \<open>Lines 352 to 369: the defaults, written into the request.\<close>

definition setDefaults :: "'a ListOrdersRequest \<Rightarrow> 'a ListOrdersRequest" where
  "setDefaults req =
     (let req1 = (if Limit req \<le> 0 then req\<lparr>Limit := 20\<rparr> else req);
          req2 = (if Limit req1 > 100 then req1\<lparr>Limit := 100\<rparr> else req1);
          req3 = (if Offset req2 < 0 then req2\<lparr>Offset := 0\<rparr> else req2);
          req4 = (if SortBy req3 = [] then req3\<lparr>SortBy := ''created_at''\<rparr> else req3)
      in (if SortOrder req4 = [] then req4\<lparr>SortOrder := ''desc''\<rparr> else req4))"

text \<open>
  \<open>validateAndSetDefaults\<close> changes the request it is given, also when it then returns an
  error: the request is returned next to the error.
\<close>

fun validateAndSetDefaults ::
  "('a::{zero,ord}) ListOrdersRequest option \<Rightarrow> 'a error option \<times> 'a ListOrdersRequest option"
  where
  "validateAndSetDefaults None = (Some (NewValidationError ''request cannot be nil'' []), None)"
| "validateAndSetDefaults (Some req0) =
     (let req = setDefaults req0
      in (if \<not> status_listed validSortFields (SortBy req)
            then Some (NewValidationError ''invalid sort_by field: %s''
                         [FmtArg (AnyString (SortBy req))])
          else if SortOrder req \<noteq> ''asc'' \<and> SortOrder req \<noteq> ''desc''
            then Some (NewValidationError (''sort_order must be 'asc' or 'desc'' @ [CHR 0x27]) [])
          else if (case MinAmount req of None \<Rightarrow> False | Some minAmount \<Rightarrow> minAmount < 0)
            then Some (NewValidationError ''min_amount cannot be negative'' [])
          else if (case MaxAmount req of None \<Rightarrow> False | Some maxAmount \<Rightarrow> maxAmount < 0)
            then Some (NewValidationError ''max_amount cannot be negative'' [])
          else if (case (MinAmount req, MaxAmount req) of
                     (Some minAmount, Some maxAmount) \<Rightarrow> minAmount > maxAmount
                   | _ \<Rightarrow> False)
            then Some (NewValidationError ''min_amount cannot be greater than max_amount'' [])
          else None,
          Some req))"

definition filters_of_request :: "'a ListOrdersRequest \<Rightarrow> 'a OrderFilters" where
  "filters_of_request req =
     \<lparr>FCustomerID = LCustomerID req, FStatus = LStatus req, FEmail = LEmail req,
      FMinAmount = MinAmount req, FMaxAmount = MaxAmount req,
      FDateFrom = DateFrom req, FDateTo = DateTo req, FCurrency = LCurrency req,
      FLimit = Limit req, FOffset = Offset req,
      FSortBy = SortBy req, FSortOrder = SortOrder req\<rparr>"

definition ListOrders_Execute ::
  "('a, 's) OrderRepository \<Rightarrow> ('a::{zero,ord}) ListOrdersRequest option \<Rightarrow> 's
     \<Rightarrow> ('a error + 'a ListOrdersResponse) \<times> 's" where
  "ListOrders_Execute orderRepo reqp s =
     (case validateAndSetDefaults reqp of
        (Some err, reqp') \<Rightarrow> (Inl (Errorf ''validation failed: %w'' err), s)
      | (None, None) \<Rightarrow> (Inl NilPointerPanic, s)
      | (None, Some req) \<Rightarrow>
          (let filters = filters_of_request req
           in case repo_List orderRepo filters s of
                (Inl err, s1) \<Rightarrow> (Inl (Errorf ''failed to list orders: %w'' err), s1)
              | (Inr orders, s1) \<Rightarrow>
                  (case repo_Count orderRepo filters s1 of
                     (Inl err, s2) \<Rightarrow> (Inl (Errorf ''failed to count orders: %w'' err), s2)
                   | (Inr totalCount, s2) \<Rightarrow>
                       (Inr \<lparr>Orders = orders, TotalCount = totalCount,
                             RespLimit = Limit req, RespOffset = Offset req\<rparr>,
                        s2))))"

section \<open>The PostgreSQL repository (internal/infrastructure/postgres)\<close>

text \<open>
  The database is the three tables of the schema: \<open>orders\<close>, keyed by its primary key
  \<open>id\<close>, and the rows of \<open>order_items\<close> and \<open>order_addresses\<close> in the order of their
  insertion. A row of \<open>order_items\<close> has the columns of an \<open>OrderItem\<close>, a row of
  \<open>order_addresses\<close> those of an \<open>Address\<close>. The model covers what the statements of the
  repository do to these rows, the primary keys and the foreign keys.

  It stops there. The amount columns are \<open>DECIMAL(10,2)\<close>: what such a column keeps of an
  amount written to it is the argument \<open>numeric\<close>. Any error the database or the driver
  raises for another reason (a lost connection, a check constraint, a value too long for
  its column) is given by the argument \<open>drv\<close>: \<open>drv call\<close> is the error raised at that
  call of the driver, if any. The triggers of the schema, which recompute \<open>total_amount\<close>
  and \<open>updated_at\<close> inside the database, are not modelled; no theorem below speaks of
  these two columns as they are read back.
\<close>

record 'a orders_row =
  row_customer_id :: uuid
  row_email :: string
  row_status :: string
  row_total_amount :: 'a
  row_currency :: string
  row_created_at :: Time
  row_updated_at :: Time

record 'a database =
  orders :: "uuid \<rightharpoonup> 'a orders_row"
  order_items :: "'a OrderItem list"
  order_addresses :: "Address list"

datatype driver_call =
    BeginTx
  | InsertOrder
  | InsertItem nat
  | InsertShippingAddress
  | InsertBillingAddress
  | Commit
  | SelectOrder
  | SelectItems
  | SelectAddresses
  | ExecUpdate
  | ExecDelete
  | RowsAffected

subsection \<open>Create\<close>

definition insert_order ::
  "('a \<Rightarrow> 'a) \<Rightarrow> string option \<Rightarrow> 'a Order \<Rightarrow> 'a database \<Rightarrow> 'a error + 'a database" where
  "insert_order numeric raised order db =
     (case raised of
        Some e \<Rightarrow> Inl (DriverError e)
      | None \<Rightarrow>
          (if orders db (ID order) \<noteq> None
           then Inl (DriverError ''duplicate key value violates unique constraint orders_pkey'')
           else Inr (db\<lparr>orders := (orders db)(ID order \<mapsto>
                      \<lparr>row_customer_id = CustomerID order,
                       row_email = Email order,
                       row_status = Status order,
                       row_total_amount = numeric (TotalAmount order),
                       row_currency = Currency order,
                       row_created_at = CreatedAt order,
                       row_updated_at = UpdatedAt order\<rparr>)\<rparr>)))"

definition insert_item ::
  "('a \<Rightarrow> 'a) \<Rightarrow> string option \<Rightarrow> 'a OrderItem \<Rightarrow> 'a database \<Rightarrow> 'a error + 'a database" where
  "insert_item numeric raised item db =
     (case raised of
        Some e \<Rightarrow> Inl (DriverError e)
      | None \<Rightarrow>
          (if ItemID item \<in> set (map ItemID (order_items db))
           then Inl (DriverError
                       ''duplicate key value violates unique constraint order_items_pkey'')
           else if orders db (ItemOrderID item) = None
           then Inl (DriverError ''insert on order_items violates foreign key constraint'')
           else Inr (db\<lparr>order_items := order_items db @
                      [item\<lparr>Price := numeric (Price item), Total := numeric (Total item)\<rparr>]\<rparr>)))"

text \<open>The loop of \<open>insertOrderItems\<close>, from the item of index \<open>i\<close> on.\<close>

fun insertOrderItems ::
  "('a \<Rightarrow> 'a) \<Rightarrow> (driver_call \<Rightarrow> string option) \<Rightarrow> nat \<Rightarrow> 'a OrderItem list \<Rightarrow> 'a database
     \<Rightarrow> 'a error + 'a database" where
  "insertOrderItems numeric drv i [] db = Inr db"
| "insertOrderItems numeric drv i (item # rest) db =
     (case insert_item numeric (drv (InsertItem i)) item db of
        Inl err \<Rightarrow> Inl err
      | Inr db' \<Rightarrow> insertOrderItems numeric drv (Suc i) rest db')"

definition insertAddress :: "string option \<Rightarrow> Address \<Rightarrow> 'a database \<Rightarrow> 'a error + 'a database" where
  "insertAddress raised address db =
     (case raised of
        Some e \<Rightarrow> Inl (DriverError e)
      | None \<Rightarrow>
          (if AddrID address \<in> set (map AddrID (order_addresses db))
           then Inl (DriverError
                       ''duplicate key value violates unique constraint order_addresses_pkey'')
           else if orders db (AddrOrderID address) = None
           then Inl (DriverError ''insert on order_addresses violates foreign key constraint'')
           else Inr (db\<lparr>order_addresses := order_addresses db @ [address]\<rparr>)))"

text \<open>
  \<open>Create\<close> runs in a transaction with a deferred rollback: on every error return the
  database is the one the method found.
\<close>

definition pg_Create ::
  "('a \<Rightarrow> 'a) \<Rightarrow> (driver_call \<Rightarrow> string option) \<Rightarrow> 'a Order \<Rightarrow> 'a database
     \<Rightarrow> 'a error option \<times> 'a database" where
  "pg_Create numeric drv order db =
     (case drv BeginTx of
        Some e \<Rightarrow> (Some (Errorf ''failed to begin transaction: %w'' (DriverError e)), db)
      | None \<Rightarrow>
     (case insert_order numeric (drv InsertOrder) order db of
        Inl err \<Rightarrow> (Some (Errorf ''failed to insert order: %w'' err), db)
      | Inr db1 \<Rightarrow>
     (case (if length (Items order) > 0 then insertOrderItems numeric drv 0 (Items order) db1
            else Inr db1) of
        Inl err \<Rightarrow> (Some (Errorf ''failed to insert order items: %w'' err), db)
      | Inr db2 \<Rightarrow>
     (case (case ShippingAddress order of
              None \<Rightarrow> Inr db2
            | Some address \<Rightarrow> insertAddress (drv InsertShippingAddress) address db2) of
        Inl err \<Rightarrow> (Some (Errorf ''failed to insert shipping address: %w'' err), db)
      | Inr db3 \<Rightarrow>
     (case (case BillingAddress order of
              None \<Rightarrow> Inr db3
            | Some address \<Rightarrow> insertAddress (drv InsertBillingAddress) address db3) of
        Inl err \<Rightarrow> (Some (Errorf ''failed to insert billing address: %w'' err), db)
      | Inr db4 \<Rightarrow>
     (case drv Commit of
        Some e \<Rightarrow> (Some (Errorf ''failed to commit transaction: %w'' (DriverError e)), db)
      | None \<Rightarrow> (None, db4)))))))"

subsection \<open>GetByID\<close>

text \<open>
  \<open>getOrderItems\<close> selects the items of the order \<open>ORDER BY name\<close>; the model sorts by
  the bytes of the name and keeps the insertion order among equal names. The database
  may order differently, by its collation: a theorem about the items read back has to hold
  of them as a collection.
\<close>

definition getOrderItems :: "uuid \<Rightarrow> 'a database \<Rightarrow> 'a OrderItem list" where
  "getOrderItems orderID db =
     sort_key Name (filter (\<lambda>item. ItemOrderID item = orderID) (order_items db))"

definition getOrderAddresses :: "uuid \<Rightarrow> 'a database \<Rightarrow> Address list" where
  "getOrderAddresses orderID db =
     filter (\<lambda>addr. AddrOrderID addr = orderID) (order_addresses db)"

text \<open>The body of the loop \<open>for _, addr := range addresses\<close> of \<open>GetByID\<close>.\<close>

definition assign_address :: "'a Order \<Rightarrow> Address \<Rightarrow> 'a Order" where
  "assign_address order addr =
     (if Type addr = ''shipping'' then order\<lparr>ShippingAddress := Some addr\<rparr>
      else if Type addr = ''billing'' then order\<lparr>BillingAddress := Some addr\<rparr>
      else order)"

definition pg_GetByID ::
  "(driver_call \<Rightarrow> string option) \<Rightarrow> uuid \<Rightarrow> 'a database \<Rightarrow> ('a error + 'a Order) \<times> 'a database"
  where
  "pg_GetByID drv orderID db =
     (case drv SelectOrder of
        Some e \<Rightarrow> (Inl (Errorf ''failed to get order: %w'' (DriverError e)), db)
      | None \<Rightarrow>
     (case orders db orderID of
        None \<Rightarrow> (Inl (NewOrderNotFoundError orderID), db)
      | Some row \<Rightarrow>
     (case drv SelectItems of
        Some e \<Rightarrow> (Inl (Errorf ''failed to get order items: %w'' (DriverError e)), db)
      | None \<Rightarrow>
     (case drv SelectAddresses of
        Some e \<Rightarrow> (Inl (Errorf ''failed to get order addresses: %w'' (DriverError e)), db)
      | None \<Rightarrow>
          (let order = \<lparr>ID = orderID,
                        CustomerID = row_customer_id row,
                        Email = row_email row,
                        Status = row_status row,
                        TotalAmount = row_total_amount row,
                        Currency = row_currency row,
                        Items = getOrderItems orderID db,
                        CreatedAt = row_created_at row,
                        UpdatedAt = row_updated_at row,
                        ShippingAddress = None,
                        BillingAddress = None,
                        Metadata = Map.empty\<rparr>
           in (Inr (foldl assign_address order (getOrderAddresses orderID db)), db))))))"

subsection \<open>Update and Delete\<close>

definition pg_Update ::
  "('a \<Rightarrow> 'a) \<Rightarrow> (driver_call \<Rightarrow> string option) \<Rightarrow> 'a Order \<Rightarrow> 'a database
     \<Rightarrow> 'a error option \<times> 'a database" where
  "pg_Update numeric drv order db =
     (case drv ExecUpdate of
        Some e \<Rightarrow> (Some (Errorf ''failed to update order: %w'' (DriverError e)), db)
      | None \<Rightarrow>
          (let (rowsAffected, db') =
                 (case orders db (ID order) of
                    None \<Rightarrow> (0 :: int, db)
                  | Some row \<Rightarrow>
                      (1, db\<lparr>orders := (orders db)(ID order \<mapsto>
                              row\<lparr>row_customer_id := CustomerID order,
                                  row_email := Email order,
                                  row_status := Status order,
                                  row_total_amount := numeric (TotalAmount order),
                                  row_currency := Currency order,
                                  row_updated_at := UpdatedAt order\<rparr>)\<rparr>))
           in case drv RowsAffected of
                Some e \<Rightarrow>
                  (Some (Errorf ''failed to get rows affected: %w'' (DriverError e)), db')
              | None \<Rightarrow>
                  (if rowsAffected = 0 then (Some (NewOrderNotFoundError (ID order)), db')
                   else (None, db'))))"

text \<open>
  \<open>Delete\<close>: the statement
  \<^verbatim>\<open>UPDATE orders SET status = 'cancelled', updated_at = $2
  WHERE id = $1 AND status NOT IN ('delivered', 'refunded', 'cancelled')\<close>
  and the number of rows it changed.
\<close>

definition pg_Delete ::
  "(driver_call \<Rightarrow> string option) \<Rightarrow> uuid \<Rightarrow> Time \<Rightarrow> 'a database \<Rightarrow> 'a error option \<times> 'a database"
  where
  "pg_Delete drv orderID now db =
     (case drv ExecDelete of
        Some e \<Rightarrow> (Some (Errorf ''failed to delete order: %w'' (DriverError e)), db)
      | None \<Rightarrow>
          (let (rowsAffected, db') =
                 (case orders db orderID of
                    None \<Rightarrow> (0 :: int, db)
                  | Some row \<Rightarrow>
                      (if row_status row \<notin> set [''delivered'', ''refunded'', ''cancelled'']
                       then (1, db\<lparr>orders := (orders db)(orderID \<mapsto>
                                   row\<lparr>row_status := ''cancelled'', row_updated_at := now\<rparr>)\<rparr>)
                       else (0, db)))
           in case drv RowsAffected of
                Some e \<Rightarrow>
                  (Some (Errorf ''failed to get rows affected: %w'' (DriverError e)), db')
              | None \<Rightarrow>
                  (if rowsAffected = 0 then (Some (NewOrderNotFoundError orderID), db')
                   else (None, db'))))"

text \<open>
  The repository as the use cases see it. \<open>List\<close> and \<open>Count\<close> run the queries assembled
  by \<open>buildListQuery\<close> and \<open>buildCountQuery\<close>, which are not modelled: the two methods
  are arguments.
\<close>

definition pg_repository ::
  "('a \<Rightarrow> 'a) \<Rightarrow> (driver_call \<Rightarrow> string option)
     \<Rightarrow> ('a OrderFilters \<Rightarrow> 'a database \<Rightarrow> ('a error + 'a Order list) \<times> 'a database)
     \<Rightarrow> ('a OrderFilters \<Rightarrow> 'a database \<Rightarrow> ('a error + int) \<times> 'a database)
     \<Rightarrow> ('a, 'a database) OrderRepository" where
  "pg_repository numeric drv listOrders countOrders =
     \<lparr>repo_Create = pg_Create numeric drv,
      repo_GetByID = pg_GetByID drv,
      repo_Update = pg_Update numeric drv,
      repo_List = listOrders,
      repo_Count = countOrders\<rparr>"


definition empty_database :: "'a database" where
  "empty_database = \<lparr>orders = Map.empty, order_items = [], order_addresses = []\<rparr>"

subsection \<open>Sequences of item calls, and invariant I1\<close>

text \<open>
  A finite sequence of \<open>AddItem\<close> and \<open>RemoveItem\<close> calls, each with its arguments and
  the environment values (new identifier, time) of the call.
\<close>

datatype 'a item_call =
    CallAddItem uuid uuid string 'a int Time
  | CallRemoveItem uuid Time

fun apply_item_call :: "(int \<Rightarrow> 'a) \<Rightarrow> ('a::{zero,plus,times}) Order \<Rightarrow> 'a item_call \<Rightarrow> 'a Order" where
  "apply_item_call float64 order (CallAddItem newID productID name price quantity now) =
     AddItem float64 order newID productID name price quantity now"
| "apply_item_call float64 order (CallRemoveItem itemID now) = snd (RemoveItem order itemID now)"

definition item_calls ::
  "(int \<Rightarrow> 'a) \<Rightarrow> ('a::{zero,plus,times}) Order \<Rightarrow> 'a item_call list \<Rightarrow> 'a Order" where
  "item_calls float64 order calls = foldl (apply_item_call float64) order calls"

text \<open>
  Invariant I1 as the specification writes it: the total is the sum, in the order of the
  items, of price times quantity, and each line total is price times quantity.
\<close>

definition total_is_sum :: "(int \<Rightarrow> 'a) \<Rightarrow> ('a::{zero,plus,times}) Order \<Rightarrow> bool" where
  "total_is_sum float64 order =
     (TotalAmount order =
        foldl (+) 0 (map (\<lambda>item. Price item * float64 (Quantity item)) (Items order)) \<and>
      list_all (\<lambda>item. Total item = Price item * float64 (Quantity item)) (Items order))"

text \<open>
  The transition table as section 4.1 of the specification writes it, a relation on
  status names, to compare \<open>canTransitionTo\<close> with.
\<close>

definition transition_table :: "(OrderStatus \<times> OrderStatus) set" where
  "transition_table =
     {(''pending'', ''confirmed''), (''pending'', ''cancelled''),
      (''confirmed'', ''processing''), (''confirmed'', ''cancelled''),
      (''processing'', ''shipped''), (''processing'', ''cancelled''),
      (''shipped'', ''delivered''),
      (''delivered'', ''refunded'')}"

text \<open>
  The e-mail rule as the specification words it: the address contains \<open>@\<close>, and its domain
  part, what follows the first \<open>@\<close>, has at least 3 characters and contains a dot.
\<close>

definition domain_part :: "string \<Rightarrow> string" where
  "domain_part email = tl (dropWhile (\<lambda>c. c \<noteq> CHR ''@'') email)"

definition spec_email_valid :: "string \<Rightarrow> bool" where
  "spec_email_valid email =
     (CHR ''@'' \<in> set email \<and>
      length (domain_part email) \<ge> 3 \<and>
      CHR ''.'' \<in> set (domain_part email))"

text \<open>
  The state machine as the specification words it for deletion: a deletion is a
  transition to \<open>cancelled\<close>, allowed when the table of section 4.1 allows it.
\<close>

definition spec_delete_allowed :: "OrderStatus \<Rightarrow> bool" where
  "spec_delete_allowed status = ((status, ''cancelled'') \<in> transition_table)"

section \<open>Example data\<close>

text \<open>
  Concrete collaborators and inputs, over the rationals, at which the theorems below are
  evaluated: a generator of identifiers that never returns the nil UUID, a clock, a request
  with two items, a shipping address and metadata, a publisher that records every event
  handed to it and returns the error it is told to return, a driver that raises nothing
  and one that fails at a chosen call, the PostgreSQL repository with a column type that
  keeps amounts as they are, and a repository that only counts the calls made to it.
\<close>

definition example_uuids :: "nat \<Rightarrow> uuid" where
  "example_uuids k = of_nat (k + 1)"

definition example_nows :: "nat \<Rightarrow> Time" where
  "example_nows k = int k"

definition example_request :: "rat CreateOrderRequest" where
  "example_request =
     \<lparr>ReqCustomerID = 77,
      ReqEmail = ''a@b.cd'',
      ReqItems = [\<lparr>ReqProductID = 5, ReqName = ''pen'', ReqPrice = 10.99, ReqQuantity = 2\<rparr>,
                  \<lparr>ReqProductID = 6, ReqName = ''ink'', ReqPrice = 5.00, ReqQuantity = 1\<rparr>],
      ReqCurrency = [],
      ReqMetadata = Some [''source'' \<mapsto> AnyString ''web''],
      ReqShippingAddress =
        Some \<lparr>ReqStreet = ''1 Main St'', ReqCity = ''Riga'', ReqState = [],
              ReqCountry = ''LV'', ReqZipCode = ''1050''\<rparr>,
      ReqBillingAddress = None\<rparr>"

definition recording_publisher :: "string option \<Rightarrow> ('a, 'a OrderEvent list) EventPublisher" where
  "recording_publisher raised =
     \<lparr>PublishOrderEvent = (\<lambda>event sent. (map_option DriverError raised, sent @ [event]))\<rparr>"

definition no_fault :: "driver_call \<Rightarrow> string option" where
  "no_fault call = None"


definition example_repository ::
  "(driver_call \<Rightarrow> string option) \<Rightarrow> (rat, rat database) OrderRepository" where
  "example_repository drv =
     pg_repository (\<lambda>amount. amount) drv
       (\<lambda>filters db. (Inr [], db)) (\<lambda>filters db. (Inr 0, db))"

definition counting_repository :: "('a, nat) OrderRepository" where
  "counting_repository =
     \<lparr>repo_Create = (\<lambda>order calls. (None, Suc calls)),
      repo_GetByID = (\<lambda>orderID calls. (Inl (NewOrderNotFoundError orderID), Suc calls)),
      repo_Update = (\<lambda>order calls. (None, Suc calls)),
      repo_List = (\<lambda>filters calls. (Inr [], Suc calls)),
      repo_Count = (\<lambda>filters calls. (Inr 0, Suc calls))\<rparr>"


definition shipped_database :: "rat database" where
  "shipped_database =
     \<lparr>orders = [1 \<mapsto> \<lparr>row_customer_id = 77, row_email = ''a@b.cd'', row_status = ''shipped'',
                        row_total_amount = 5, row_currency = ''USD'',
                        row_created_at = 0, row_updated_at = 3\<rparr>],
      order_items = [\<lparr>ItemID = 3, ItemOrderID = 1, ProductID = 6, Name = ''ink'',
                      Price = 5, Quantity = 1, Total = 5\<rparr>],
      order_addresses = []\<rparr>"



text \<open>A list request with every default to fill in and a lower bound above the upper one.\<close>

definition example_list_request :: "rat ListOrdersRequest" where
  "example_list_request =
     \<lparr>LCustomerID = None, LStatus = None, LEmail = None,
      MinAmount = Some 10, MaxAmount = Some 5,
      DateFrom = None, DateTo = None, LCurrency = None,
      Limit = 0, Offset = - 3, SortBy = [], SortOrder = []\<rparr>"

section \<open>Theorems\<close>

lemma canTransitionTo_table:
  "canTransitionTo order newStatus = ((Status order, newStatus) \<in> transition_table)"
  by (simp add: canTransitionTo_def validTransitions_def transition_table_def
      OrderStatus_defs)

subsection \<open>The state machine\<close>

text \<open>
  Claim C1. For every order, every target status (the seven known values and any other
  string) and every time of the call: \<open>UpdateStatus\<close> succeeds exactly when the pair
  (current status, target status) is in the transition table of section 4.1. On success
  the order returned has the target status and the time of the call as its update
  timestamp, and is otherwise the order given; on failure the result is the
  \<open>InvalidStatusTransitionError\<close> carrying the current and the target status, and the order
  is returned as it was given.
\<close>

theorem UpdateStatus_contract:
  "UpdateStatus order newStatus now =
     (if (Status order, newStatus) \<in> transition_table
      then (None, order\<lparr>Status := newStatus, UpdatedAt := now\<rparr>)
      else (Some (InvalidStatusTransitionError
                    (Sprintf ''cannot transition from %s to %s''
                       [FmtArg (AnyString (Status order)), FmtArg (AnyString newStatus)])
                    (Status order) newStatus),
            order))"
  by (simp add: UpdateStatus_def canTransitionTo_table NewInvalidStatusTransitionError_def)

theorem UpdateStatus_contract_witness:
  "UpdateStatus (NewOrder 7 9 ''a@b.cd'' 100 :: rat Order) ''confirmed'' 200 =
     (None, (NewOrder 7 9 ''a@b.cd'' 100)\<lparr>Status := ''confirmed'', UpdatedAt := 200\<rparr>) \<and>
   UpdateStatus (NewOrder 7 9 ''a@b.cd'' 100 :: rat Order) ''processing'' 200 =
     (Some (InvalidStatusTransitionError
              (Sprintf ''cannot transition from %s to %s''
                 [FmtArg (AnyString ''pending''), FmtArg (AnyString ''processing'')])
              ''pending'' ''processing''),
      NewOrder 7 9 ''a@b.cd'' 100)"
  using UpdateStatus_contract [of "NewOrder 7 9 ''a@b.cd'' 100 :: rat Order" "''confirmed''" 200]
        UpdateStatus_contract [of "NewOrder 7 9 ''a@b.cd'' 100 :: rat Order" "''processing''" 200]
  by (simp add: transition_table_def NewOrder_def OrderStatus_defs)

text \<open>
  Claim C10. \<open>IsFinal\<close> holds exactly for the statuses delivered, cancelled and refunded,
  and \<open>IsActive\<close> is its negation. An order in status delivered is final and yet may
  still move to refunded: being final does not mean that no transition is allowed.
\<close>

theorem IsFinal_IsActive:
  "IsFinal order =
     (Status order = ''delivered'' \<or> Status order = ''cancelled'' \<or> Status order = ''refunded'') \<and>
   IsActive order = (\<not> IsFinal order) \<and>
   IsFinal (order\<lparr>Status := OrderStatusDelivered\<rparr>) \<and>
   canTransitionTo (order\<lparr>Status := OrderStatusDelivered\<rparr>) OrderStatusRefunded"
  by (auto simp add: IsFinal_def IsActive_def OrderStatus_defs canTransitionTo_table
      transition_table_def)

theorem IsFinal_IsActive_witness:
  "IsFinal ((NewOrder 7 9 ''a@b.cd'' 100 :: rat Order)\<lparr>Status := ''delivered''\<rparr>) \<and>
   \<not> IsActive ((NewOrder 7 9 ''a@b.cd'' 100 :: rat Order)\<lparr>Status := ''delivered''\<rparr>) \<and>
   canTransitionTo ((NewOrder 7 9 ''a@b.cd'' 100 :: rat Order)\<lparr>Status := ''delivered''\<rparr>)
     ''refunded''"
  using IsFinal_IsActive [of "(NewOrder 7 9 ''a@b.cd'' 100 :: rat Order)\<lparr>Status := ''delivered''\<rparr>"]
  by (simp add: OrderStatus_defs)

subsection \<open>The total of an order\<close>

lemma foldl_Total_map:
  "list_all (\<lambda>item. Total item = f item) xs \<Longrightarrow>
   foldl (\<lambda>total item. total + Total item) z xs = foldl (+) z (map f xs)"
  by (induction xs arbitrary: z) simp_all

lemma remove_first_list_all:
  "remove_first xs itemID = Some ys \<Longrightarrow> list_all P xs \<Longrightarrow> list_all P ys"
  by (induction xs arbitrary: ys) (auto split: if_splits option.splits)

lemma total_is_sum_calculateTotal:
  "list_all (\<lambda>item. Total item = Price item * float64 (Quantity item)) (Items order) \<Longrightarrow>
   total_is_sum float64 (calculateTotal order)"
  by (simp add: total_is_sum_def calculateTotal_def foldl_Total_map)

lemma total_is_sum_UpdatedAt:
  "total_is_sum float64 (order\<lparr>UpdatedAt := now\<rparr>) = total_is_sum float64 order"
  by (simp add: total_is_sum_def)

lemma total_is_sum_AddItem:
  assumes "total_is_sum float64 order"
  shows "total_is_sum float64 (AddItem float64 order newID productID name price quantity now)"
proof -
  have "list_all (\<lambda>item. Total item = Price item * float64 (Quantity item)) (Items order)"
    using assms by (simp add: total_is_sum_def)
  then show ?thesis
    unfolding AddItem_def Let_def total_is_sum_UpdatedAt
    by (intro total_is_sum_calculateTotal) simp
qed

lemma total_is_sum_RemoveItem:
  assumes "total_is_sum float64 order"
  shows "total_is_sum float64 (snd (RemoveItem order itemID now))"
proof (cases "remove_first (Items order) itemID")
  case None
  then show ?thesis using assms by (simp add: RemoveItem_def)
next
  case (Some items)
  have "list_all (\<lambda>item. Total item = Price item * float64 (Quantity item)) (Items order)"
    using assms by (simp add: total_is_sum_def)
  then have "list_all (\<lambda>item. Total item = Price item * float64 (Quantity item)) items"
    by (rule remove_first_list_all [OF Some])
  then have "total_is_sum float64 (calculateTotal (order\<lparr>Items := items\<rparr>))"
    by (intro total_is_sum_calculateTotal) simp
  then show ?thesis using Some by (simp add: RemoveItem_def total_is_sum_UpdatedAt)
qed

lemma total_is_sum_apply_item_call:
  "total_is_sum float64 order \<Longrightarrow> total_is_sum float64 (apply_item_call float64 order c)"
  by (cases c) (simp_all add: total_is_sum_AddItem total_is_sum_RemoveItem)

lemma total_is_sum_foldl:
  "total_is_sum float64 order \<Longrightarrow>
   total_is_sum float64 (foldl (apply_item_call float64) order calls)"
  by (induction calls arbitrary: order) (simp_all add: total_is_sum_apply_item_call)

lemma total_is_sum_NewOrder: "total_is_sum float64 (NewOrder newID customerID email now)"
  by (simp add: total_is_sum_def NewOrder_def)

subsection \<open>float64: rounding at a known exponent\<close>

text \<open>
  The search of \<open>quantum_exponent\<close> ends after \<open>n\<close> steps when \<open>n\<close> halvings bring the
  magnitude below \<open>2^53\<close> and fewer do not. So a number whose magnitude times \<open>2^k\<close> lies
  from \<open>2^52\<close> up to \<open>2^53\<close> (or below it, for \<open>k = 1074\<close>) is rounded to a multiple of
  \<open>2^-k\<close>.
\<close>

lemma quantum_exponent_steps:
  assumes "0 \<le> y" and "y / 2 ^ n < 2 ^ 53" and "n = 0 \<or> 2 ^ 53 \<le> y / 2 ^ (n - 1)"
      and "e + int n \<le> 972"
  shows "quantum_exponent y e = e + int n"
  using assms
proof (induction n arbitrary: y e)
  case 0
  then show ?case by (simp add: quantum_exponent.simps)
next
  case (Suc n)
  have "2 ^ 53 \<le> y / 2 ^ n" using Suc.prems(3) by simp
  also have "y / 2 ^ n \<le> y" using Suc.prems(1) by (simp add: divide_le_eq mult_le_cancel_left1)
  finally have big: "\<not> y < 2 ^ 53" by simp
  have small: "\<not> e \<ge> 972" using Suc.prems(4) by simp
  have "quantum_exponent (y / 2) (e + 1) = e + 1 + int n"
  proof (rule Suc.IH)
    show "0 \<le> y / 2" using Suc.prems(1) by simp
    show "y / 2 / 2 ^ n < 2 ^ 53" using Suc.prems(2) by simp
    show "n = 0 \<or> 2 ^ 53 \<le> y / 2 / 2 ^ (n - 1)"
    proof (cases n)
      case 0
      then show ?thesis by simp
    next
      case (Suc m)
      with \<open>2 ^ 53 \<le> y / 2 ^ n\<close> show ?thesis by simp
    qed
    show "e + 1 + int n \<le> 972" using Suc.prems(4) by simp
  qed
  with big small show ?case
    by (subst quantum_exponent.simps) simp
qed

lemma round64_at:
  fixes k :: nat
  assumes "k \<le> 1074"
      and "\<bar>x\<bar> * 2 ^ k < 2 ^ 53"
      and "k = 1074 \<or> 2 ^ 52 \<le> \<bar>x\<bar> * 2 ^ k"
  shows "round64 x =
           (if \<bar>of_int (round_half_even (x * 2 ^ k)) / 2 ^ k\<bar> \<ge> (2 :: rat) ^ 1024
            then Infinity (x < 0)
            else Finite (of_int (round_half_even (x * 2 ^ k)) / 2 ^ k))"
proof -
  define n where "n = 1074 - k"
  have k: "k + n = 1074" using assms(1) by (simp add: n_def)
  have split: "(2 :: rat) ^ 1074 = 2 ^ k * 2 ^ n"
    unfolding k [symmetric] by (rule power_add)
  have shift: "\<bar>x\<bar> * 2 ^ 1074 / 2 ^ n = \<bar>x\<bar> * 2 ^ k"
    unfolding split by simp
  have "quantum_exponent (\<bar>x\<bar> * 2 ^ 1074) (- 1074) = - 1074 + int n"
  proof (rule quantum_exponent_steps)
    show "0 \<le> \<bar>x\<bar> * 2 ^ 1074" by simp
    show "\<bar>x\<bar> * 2 ^ 1074 / 2 ^ n < 2 ^ 53"
      unfolding shift by (rule assms(2))
    show "n = 0 \<or> 2 ^ 53 \<le> \<bar>x\<bar> * 2 ^ 1074 / 2 ^ (n - 1)"
    proof (cases "n = 0")
      case True
      then show ?thesis by simp
    next
      case False
      then obtain m where m: "n = Suc m" by (cases n) auto
      from False k have "k \<noteq> 1074" by simp
      with assms(3) have "2 ^ 52 \<le> \<bar>x\<bar> * 2 ^ k" by simp
      then have "2 ^ 53 \<le> \<bar>x\<bar> * 2 ^ k * 2" by simp
      also have "\<bar>x\<bar> * 2 ^ k * 2 = \<bar>x\<bar> * (2 ^ k * 2 ^ n) / 2 ^ m"
        by (simp add: m)
      finally show ?thesis unfolding split by (simp add: m)
    qed
    show "- 1074 + int n \<le> 972" using k by simp
  qed
  moreover have "- 1074 + int n = - int k" using k by simp
  ultimately have e: "quantum_exponent (\<bar>x\<bar> * 2 ^ 1074) (- 1074) = - int k" by simp
  have pow: "(2 :: rat) powi (- int k) = 1 / 2 ^ k"
    by (simp add: power_int_minus field_simps)
  show ?thesis
    unfolding round64_def Let_def e pow by simp
qed

lemma floor_rat_numeral:
  "\<lfloor>numeral a / numeral b :: rat\<rfloor> = numeral a div numeral b"
  by (metis floor_divide_of_int_eq of_int_numeral)

lemmas round64_eval = round_half_even_def Let_def floor_rat_numeral



lemma float64_tenth: "float64_of_decimal (1 / 10) = Finite (3602879701896397 / 36028797018963968)"
  unfolding float64_of_decimal_def
  by (subst round64_at [where k = 56]) (simp_all add: round64_eval)

lemma float64_three: "float64_of_int 3 = Finite 3"
  unfolding float64_of_int_def
  by (subst round64_at [where k = 51]) (simp_all add: round64_eval)

lemma float64_tenth_times_three:
  "Finite (3602879701896397 / 36028797018963968) * Finite 3 =
     Finite (1351079888211149 / 4503599627370496)"
  by (simp, subst round64_at [where k = 54]) (simp_all add: round64_eval)

lemma float64_zero_plus_three_tenths:
  "0 + Finite (1351079888211149 / 4503599627370496) =
     Finite (1351079888211149 / 4503599627370496)"
  by (simp add: zero_float64_def, subst round64_at [where k = 54]) (simp_all add: round64_eval)

text \<open>
  Claim C2, as the specification states it, fails: \<open>float64\<close> rounds. The price 0.1 is the
  \<open>float64\<close> 3602879701896397 / 2^55; with quantity 3 the stored item total and the total
  amount are 1351079888211149 / 2^52 (printed 0.30000000000000004), which is not 3 times
  the price.
\<close>

theorem total_amount_exact_counterexample:
  "float64_of_decimal (1 / 10) = Finite (3602879701896397 / 36028797018963968) \<and>
   map Total
     (Items (AddItem float64_of_int (NewOrder 1 77 ''a@b.cd'' 0) 2 5 ''pen''
               (float64_of_decimal (1 / 10)) 3 1)) =
     [Finite (1351079888211149 / 4503599627370496)] \<and>
   TotalAmount (AddItem float64_of_int (NewOrder 1 77 ''a@b.cd'' 0) 2 5 ''pen''
                  (float64_of_decimal (1 / 10)) 3 1) =
     Finite (1351079888211149 / 4503599627370496) \<and>
   (1351079888211149 / 4503599627370496 :: rat) \<noteq> 3602879701896397 / 36028797018963968 * 3"
  by (simp add: AddItem_def NewOrder_def calculateTotal_def float64_tenth float64_three
      float64_tenth_times_three float64_zero_plus_three_tenths
      del: plus_float64.simps times_float64.simps)


text \<open>
  Claim C2, amended. Start from any order built by \<open>NewOrder\<close> and make any finite
  sequence of \<open>AddItem\<close> and \<open>RemoveItem\<close> calls. In the order reached, the total amount
  is the sum over the items, in their order, of price times quantity, and the total of
  every stored item is its price times its quantity, where sum and product are those of
  the amount arithmetic of the code, \<open>float64\<close>, which rounds each result. Every prefix of
  a sequence of calls is itself such a sequence, so this holds after each call. The
  theorem is proved of any arithmetic, \<open>float64\<close> among them.
\<close>

theorem total_amount_invariant:
  "total_is_sum float64 (item_calls float64 (NewOrder newID customerID email now) calls)"
  unfolding item_calls_def by (rule total_is_sum_foldl [OF total_is_sum_NewOrder])

text \<open>
  The example of the specification, in \<open>float64\<close>: price 10.99 and quantity 2, then price
  5.00 and quantity 1, give the \<open>float64\<close> 26.98; removing the first item gives 5.00. None
  of these operations rounds.
\<close>

lemma float64_example_values:
  "float64_of_decimal (1099 / 100) = Finite (6186819988100219 / 562949953421312)"
  "float64_of_decimal 5 = Finite 5"
  "float64_of_decimal (1349 / 50) = Finite (7594194871653499 / 281474976710656)"
  "float64_of_int 1 = Finite 1"
  "float64_of_int 2 = Finite 2"
  unfolding float64_of_decimal_def float64_of_int_def
      apply (subst round64_at [where k = 49]; simp add: round64_eval)
     apply (subst round64_at [where k = 50]; simp add: round64_eval)
    apply (subst round64_at [where k = 48]; simp add: round64_eval)
   apply (subst round64_at [where k = 52]; simp add: round64_eval)
  apply (subst round64_at [where k = 51]; simp add: round64_eval)
  done

lemma float64_example_sums:
  "Finite (6186819988100219 / 562949953421312) * Finite 2 =
     Finite (6186819988100219 / 281474976710656)"
  "0 + Finite (6186819988100219 / 281474976710656) =
     Finite (6186819988100219 / 281474976710656)"
  "Finite 5 * Finite 1 = Finite 5"
  "Finite (6186819988100219 / 281474976710656) + Finite 5 =
     Finite (7594194871653499 / 281474976710656)"
  "0 + Finite 5 = Finite 5"
      apply (simp, subst round64_at [where k = 48]; simp add: round64_eval)
     apply (simp add: zero_float64_def, subst round64_at [where k = 48]; simp add: round64_eval)
    apply (simp, subst round64_at [where k = 50]; simp add: round64_eval)
   apply (simp, subst round64_at [where k = 48]; simp add: round64_eval)
  apply (simp add: zero_float64_def, subst round64_at [where k = 50]; simp add: round64_eval)
  done

theorem total_amount_invariant_witness:
  "total_is_sum float64_of_int
     (item_calls float64_of_int (NewOrder 1 77 ''a@b.cd'' 0)
        [CallAddItem 2 5 ''pen'' (float64_of_decimal 10.99) 2 1,
         CallAddItem 3 6 ''ink'' (float64_of_decimal 5.00) 1 2]) \<and>
   TotalAmount
     (item_calls float64_of_int (NewOrder 1 77 ''a@b.cd'' 0)
        [CallAddItem 2 5 ''pen'' (float64_of_decimal 10.99) 2 1,
         CallAddItem 3 6 ''ink'' (float64_of_decimal 5.00) 1 2]) = float64_of_decimal 26.98 \<and>
   total_is_sum float64_of_int
     (item_calls float64_of_int (NewOrder 1 77 ''a@b.cd'' 0)
        [CallAddItem 2 5 ''pen'' (float64_of_decimal 10.99) 2 1,
         CallAddItem 3 6 ''ink'' (float64_of_decimal 5.00) 1 2,
         CallRemoveItem 2 3]) \<and>
   TotalAmount
     (item_calls float64_of_int (NewOrder 1 77 ''a@b.cd'' 0)
        [CallAddItem 2 5 ''pen'' (float64_of_decimal 10.99) 2 1,
         CallAddItem 3 6 ''ink'' (float64_of_decimal 5.00) 1 2,
         CallRemoveItem 2 3]) = float64_of_decimal 5.00"
  using total_amount_invariant [of float64_of_int 1 77 "''a@b.cd''" 0
          "[CallAddItem 2 5 ''pen'' (float64_of_decimal 10.99) 2 1,
            CallAddItem 3 6 ''ink'' (float64_of_decimal 5.00) 1 2]"]
        total_amount_invariant [of float64_of_int 1 77 "''a@b.cd''" 0
          "[CallAddItem 2 5 ''pen'' (float64_of_decimal 10.99) 2 1,
            CallAddItem 3 6 ''ink'' (float64_of_decimal 5.00) 1 2,
            CallRemoveItem 2 3]"]
  by (simp add: item_calls_def NewOrder_def AddItem_def RemoveItem_def calculateTotal_def
      float64_example_values float64_example_sums
      del: plus_float64.simps times_float64.simps)

subsection \<open>CreateOrder: persist, then publish\<close>



lemmas pg_defs =
  pg_Create_def insert_order_def insert_item_def insertAddress_def empty_database_def
  pg_GetByID_def getOrderItems_def getOrderAddresses_def assign_address_def









subsection \<open>UpdateOrderStatus: the event published\<close>

lemma status_eventType_table:
  "status_eventType ''confirmed'' = ''order.confirmed'' \<and>
   status_eventType ''cancelled'' = ''order.cancelled'' \<and>
   status_eventType ''shipped'' = ''order.shipped'' \<and>
   status_eventType ''delivered'' = ''order.delivered'' \<and>
   status_eventType ''refunded'' = ''order.refunded'' \<and>
   (newStatus \<notin> {''confirmed'', ''cancelled'', ''shipped'', ''delivered'', ''refunded''} \<longrightarrow>
      status_eventType newStatus = ''order.status_changed'')"
  by (simp add: status_eventType_def OrderStatus_defs Event_defs)

text \<open>
  Claim C6. The event type is a function of the target status alone: confirmed, cancelled,
  shipped, delivered and refunded give the event of that name, every other target gives
  \<open>order.status_changed\<close>. When the request is valid, the order is found, the transition is
  allowed and the update is saved, the event handed to the publisher is built from the
  updated order (it carries the new status), has the type of the target status, and its
  data maps \<open>old_status\<close> to the status before the transition and \<open>change_reason\<close> to the
  reason of the request.
\<close>

theorem UpdateOrderStatus_event:
  fixes orderRepo :: "('a, 's) OrderRepository"
  assumes valid: "(UpdateOrderStatus_validateRequest (Some req) :: 'a error option) = None"
      and got: "repo_GetByID orderRepo (OrderID req) s = (Inr order0, s1)"
      and allowed: "canTransitionTo order0 (NewStatus req)"
      and order2: "order2 = (if Reason req \<noteq> []
                     then order0\<lparr>Status := NewStatus req, UpdatedAt := nows 0,
                                 Metadata := (Metadata order0)(''status_change_reason'' \<mapsto>
                                               AnyString (Reason req))\<rparr>
                     else order0\<lparr>Status := NewStatus req, UpdatedAt := nows 0\<rparr>)"
      and saved: "repo_Update orderRepo order2 s1 = (None, s2)"
      and event: "event = status_event order2 (Status order0) req (uuids 0) (nows 1)"
  shows "UpdateOrderStatus_Execute orderRepo publisher uuids nows (Some req) s p =
           (Inr \<lparr>UpdOrder = order2,
                 UpdMessage = Sprintf ''Order status updated from %s to %s''
                                [FmtArg (AnyString (Status order0)),
                                 FmtArg (AnyString (NewStatus req))],
                 OldStatus = Status order0,
                 RespNewStatus = NewStatus req\<rparr>,
            s2, snd (PublishOrderEvent publisher event p)) \<and>
         EventType event = status_eventType (NewStatus req) \<and>
         status_eventType ''confirmed'' = ''order.confirmed'' \<and>
         status_eventType ''cancelled'' = ''order.cancelled'' \<and>
         status_eventType ''shipped'' = ''order.shipped'' \<and>
         status_eventType ''delivered'' = ''order.delivered'' \<and>
         status_eventType ''refunded'' = ''order.refunded'' \<and>
         (NewStatus req \<notin> {''confirmed'', ''cancelled'', ''shipped'', ''delivered'', ''refunded''}
            \<longrightarrow> EventType event = ''order.status_changed'') \<and>
         EvStatus event = NewStatus req \<and>
         Data event ''old_status'' = Some (AnyString (Status order0)) \<and>
         Data event ''change_reason'' = Some (AnyString (Reason req))"
proof -
  let ?order1 = "order0\<lparr>Status := NewStatus req, UpdatedAt := nows 0\<rparr>"
  have upd: "UpdateStatus order0 (NewStatus req) (nows 0) = (None, ?order1)"
    using allowed by (simp add: UpdateStatus_def)
  have status2: "Status order2 = NewStatus req"
    using order2 by simp
  have "UpdateOrderStatus_Execute orderRepo publisher uuids nows (Some req) s p =
          (Inr \<lparr>UpdOrder = order2,
                UpdMessage = Sprintf ''Order status updated from %s to %s''
                               [FmtArg (AnyString (Status order0)),
                                FmtArg (AnyString (NewStatus req))],
                OldStatus = Status order0,
                RespNewStatus = NewStatus req\<rparr>,
           s2, snd (PublishOrderEvent publisher event p))"
    using saved unfolding event order2
    by (cases "Reason req = []")
       (simp_all add: UpdateOrderStatus_Execute_def valid got upd Let_def case_prod_beta
          del: UpdateOrderStatus_validateRequest.simps)
  moreover have type: "EventType event = status_eventType (NewStatus req)"
    by (simp add: event status_event_def ToEvent_def Let_def)
  moreover have "EvStatus event = NewStatus req"
    by (simp add: event status_event_def ToEvent_def Let_def status2)
  moreover have "Data event ''old_status'' = Some (AnyString (Status order0))"
    by (simp add: event status_event_def ToEvent_def Let_def)
  moreover have "Data event ''change_reason'' = Some (AnyString (Reason req))"
    by (simp add: event status_event_def ToEvent_def Let_def)
  ultimately show ?thesis
    using status_eventType_table [of "NewStatus req"] by (simp add: type)
qed

lemma shipped_GetByID:
  "repo_GetByID (example_repository no_fault) 1 shipped_database =
     (Inr \<lparr>ID = 1, CustomerID = 77, Email = ''a@b.cd'', Status = ''shipped'', TotalAmount = 5,
            Currency = ''USD'',
            Items = [\<lparr>ItemID = 3, ItemOrderID = 1, ProductID = 6, Name = ''ink'',
                      Price = 5, Quantity = 1, Total = 5\<rparr>],
            CreatedAt = 0, UpdatedAt = 3, ShippingAddress = None, BillingAddress = None,
            Metadata = Map.empty\<rparr>,
      shipped_database)"
  by (simp add: example_repository_def pg_repository_def no_fault_def shipped_database_def pg_defs)

theorem UpdateOrderStatus_event_witness:
  "(UpdateOrderStatus_validateRequest
      (Some \<lparr>OrderID = 1, NewStatus = ''delivered'', Reason = ''handed over''\<rparr>)
      :: rat error option) = None \<and>
   map EventType
     (snd (snd (UpdateOrderStatus_Execute (example_repository no_fault)
                  (recording_publisher (Some ''broker down'')) example_uuids example_nows
                  (Some \<lparr>OrderID = 1, NewStatus = ''delivered'', Reason = ''handed over''\<rparr>)
                  shipped_database []))) = [''order.delivered''] \<and>
   map EvStatus
     (snd (snd (UpdateOrderStatus_Execute (example_repository no_fault)
                  (recording_publisher (Some ''broker down'')) example_uuids example_nows
                  (Some \<lparr>OrderID = 1, NewStatus = ''delivered'', Reason = ''handed over''\<rparr>)
                  shipped_database []))) = [''delivered''] \<and>
   map (\<lambda>event. (Data event ''old_status'', Data event ''change_reason''))
     (snd (snd (UpdateOrderStatus_Execute (example_repository no_fault)
                  (recording_publisher (Some ''broker down'')) example_uuids example_nows
                  (Some \<lparr>OrderID = 1, NewStatus = ''delivered'', Reason = ''handed over''\<rparr>)
                  shipped_database []))) =
     [(Some (AnyString ''shipped''), Some (AnyString ''handed over''))]"
proof -
  let ?req = "\<lparr>OrderID = 1, NewStatus = ''delivered'', Reason = ''handed over''\<rparr>"
  let ?order0 = "\<lparr>ID = 1, CustomerID = 77, Email = ''a@b.cd'', Status = ''shipped'',
            TotalAmount = (5 :: rat), Currency = ''USD'',
            Items = [\<lparr>ItemID = 3, ItemOrderID = 1, ProductID = 6, Name = ''ink'',
                      Price = 5, Quantity = 1, Total = 5\<rparr>],
            CreatedAt = 0, UpdatedAt = 3, ShippingAddress = None, BillingAddress = None,
            Metadata = Map.empty\<rparr>"
  let ?order2 = "?order0\<lparr>Status := ''delivered'', UpdatedAt := example_nows 0,
                   Metadata := (Metadata ?order0)(''status_change_reason'' \<mapsto>
                                 AnyString ''handed over'')\<rparr>"
  have valid: "(UpdateOrderStatus_validateRequest (Some ?req) :: rat error option) = None"
    by (simp add: validStatuses_def OrderStatus_defs uuid_Nil_def)
  have got: "repo_GetByID (example_repository no_fault) (OrderID ?req) shipped_database =
               (Inr ?order0, shipped_database)"
    using shipped_GetByID by simp
  have allowed: "canTransitionTo ?order0 (NewStatus ?req)"
    by (simp add: canTransitionTo_table transition_table_def)
  have order2: "?order2 = (if Reason ?req \<noteq> []
                     then ?order0\<lparr>Status := NewStatus ?req, UpdatedAt := example_nows 0,
                                 Metadata := (Metadata ?order0)(''status_change_reason'' \<mapsto>
                                               AnyString (Reason ?req))\<rparr>
                     else ?order0\<lparr>Status := NewStatus ?req, UpdatedAt := example_nows 0\<rparr>)"
    by simp
  have saved: "repo_Update (example_repository no_fault) ?order2 shipped_database =
                 (None, snd (repo_Update (example_repository no_fault) ?order2 shipped_database))"
    by (simp add: prod_eq_iff example_repository_def pg_repository_def no_fault_def
        shipped_database_def pg_Update_def Let_def)
  note w = UpdateOrderStatus_event
             [where nows = example_nows and uuids = example_uuids
                and publisher = "recording_publisher (Some ''broker down'')" and p = "[]",
              OF valid got allowed order2 saved refl]
  show ?thesis
    using w valid by (simp add: recording_publisher_def del: UpdateOrderStatus_validateRequest.simps)
qed

subsection \<open>CreateOrder: the e-mail rule\<close>

lemma strings_Contains_byte: "strings_Contains s [c] = (c \<in> set s)"
  by (induction s) auto

lemma length_split_byte: "length (split_byte sep cur s) = Suc (count_list s sep)"
  by (induction s arbitrary: cur) simp_all

lemma split_byte_no_sep: "sep \<notin> set s \<Longrightarrow> split_byte sep cur s = [cur @ s]"
  by (induction s arbitrary: cur) auto

lemma split_byte_second:
  "count_list s sep = 1 \<Longrightarrow> split_byte sep cur s ! 1 = tl (dropWhile (\<lambda>c. c \<noteq> sep) s)"
proof (induction s arbitrary: cur)
  case Nil
  then show ?case by simp
next
  case (Cons c s)
  show ?case
  proof (cases "c = sep")
    case True
    with Cons.prems have "count_list s sep = 0" by simp
    then have "sep \<notin> set s" by (simp add: count_list_0_iff)
    with True show ?thesis by (simp add: split_byte_no_sep)
  next
    case False
    with Cons show ?thesis by simp
  qed
qed

lemma count_list_pos: "(0 < count_list s c) = (c \<in> set s)"
  by (induction s) auto

lemma validateEmail_iff:
  "validateEmail email =
     (5 \<le> length email \<and> count_list email (CHR ''@'') = 1 \<and> spec_email_valid email)"
proof (cases "count_list email (CHR ''@'') = 1")
  case True
  then have at: "CHR ''@'' \<in> set email"
    using count_list_pos [of email "CHR ''@''"] by simp
  have parts: "length (strings_Split email (CHR ''@'')) = 2"
    using True by (simp add: strings_Split_def length_split_byte)
  have second: "strings_Split email (CHR ''@'') ! 1 = domain_part email"
    using True by (simp only: strings_Split_def domain_part_def split_byte_second)
  show ?thesis
    unfolding validateEmail_def Let_def parts second spec_email_valid_def
    using True at by (auto simp add: strings_Contains_byte)
next
  case False
  then show ?thesis
    by (simp add: validateEmail_def strings_Split_def length_split_byte Let_def)
qed

lemma validateRequest_email_rejected:
  assumes "\<not> validateEmail (ReqEmail req)"
  shows "\<exists>m. CreateOrder_validateRequest (Some req) = Some (ValidationError m)"
  using assms by (simp add: NewValidationError_def)

text \<open>
  Claim C8, as the specification states it, fails: \<open>@b.c\<close> contains \<open>@\<close> and its domain part
  \<open>b.c\<close> has 3 characters and a dot, but \<open>validateEmail\<close> refuses it, for it is shorter than
  5 bytes.
\<close>

theorem validateEmail_counterexample:
  "spec_email_valid ''@b.c'' \<and> \<not> validateEmail ''@b.c''"
  by (simp add: spec_email_valid_def domain_part_def validateEmail_def)

text \<open>
  Claim C8, amended. \<open>validateEmail\<close> accepts an address exactly when it has at least 5
  bytes, contains exactly one \<open>@\<close>, and is valid in the specification's sense (the part
  after the \<open>@\<close> has at least 3 bytes and contains a dot). A request with an accepted
  address, a customer id and items that pass their checks passes \<open>validateRequest\<close>. For a
  request whose address is not accepted, \<open>Execute\<close> returns a validation error and leaves
  repository and publisher as they were, whatever they are.
\<close>

theorem validateEmail_rule:
  "validateEmail email =
     (5 \<le> length email \<and> count_list email (CHR ''@'') = 1 \<and> spec_email_valid email) \<and>
   (validateEmail (ReqEmail req) \<and> ReqCustomerID req \<noteq> uuid_Nil \<and> ReqItems req \<noteq> [] \<and>
    validateRequest_items 0 (ReqItems req) = None
      \<longrightarrow> CreateOrder_validateRequest (Some req) = None) \<and>
   (\<not> validateEmail (ReqEmail req) \<longrightarrow>
      (\<exists>m. CreateOrder_Execute float64 orderRepo publisher uuids nows (Some req) s p =
              (Inl (Errorf ''validation failed: %w'' (ValidationError m)), s, p)))"
proof (intro conjI impI)
  show "validateEmail email =
     (5 \<le> length email \<and> count_list email (CHR ''@'') = 1 \<and> spec_email_valid email)"
    by (rule validateEmail_iff)
next
  assume ok: "validateEmail (ReqEmail req) \<and> ReqCustomerID req \<noteq> uuid_Nil \<and>
    ReqItems req \<noteq> [] \<and> validateRequest_items 0 (ReqItems req) = None"
  then have "ReqEmail req \<noteq> []" by (auto simp add: validateEmail_def)
  with ok show "CreateOrder_validateRequest (Some req) = None" by simp
next
  assume "\<not> validateEmail (ReqEmail req)"
  then obtain m where "CreateOrder_validateRequest (Some req) = Some (ValidationError m)"
    using validateRequest_email_rejected by blast
  then show "\<exists>m. CreateOrder_Execute float64 orderRepo publisher uuids nows (Some req) s p =
              (Inl (Errorf ''validation failed: %w'' (ValidationError m)), s, p)"
    by (simp add: CreateOrder_Execute_def)
qed

theorem validateEmail_rule_witness:
  "validateEmail ''a@b.cd'' \<and> spec_email_valid ''a@b.cd'' \<and>
   \<not> validateEmail ''a@b@c.de'' \<and>
   CreateOrder_validateRequest (Some example_request) = None \<and>
   \<not> validateEmail ''a.bcde'' \<and>
   (\<exists>m. CreateOrder_Execute rat_of_int counting_repository (recording_publisher None)
           example_uuids example_nows (Some (example_request\<lparr>ReqEmail := ''a.bcde''\<rparr>)) 0 [] =
           (Inl (Errorf ''validation failed: %w'' (ValidationError m)), 0, []))"
  using validateEmail_rule [of "''a@b.cd''" example_request]
        validateEmail_rule [of "''a@b@c.de''" "example_request\<lparr>ReqEmail := ''a.bcde''\<rparr>"
          rat_of_int counting_repository "recording_publisher None" example_uuids example_nows
          0 "[]"]
  by (simp add: spec_email_valid_def domain_part_def example_request_def uuid_Nil_def
      validateEmail_def strings_Split_def)

subsection \<open>ListOrders: defaults and validation\<close>

lemma setDefaults_fields:
  "Limit (setDefaults req) =
     (if Limit req \<le> 0 then 20 else if Limit req > 100 then 100 else Limit req)"
  "Offset (setDefaults req) = (if Offset req < 0 then 0 else Offset req)"
  "SortBy (setDefaults req) = (if SortBy req = [] then ''created_at'' else SortBy req)"
  "SortOrder (setDefaults req) = (if SortOrder req = [] then ''desc'' else SortOrder req)"
  "MinAmount (setDefaults req) = MinAmount req"
  "MaxAmount (setDefaults req) = MaxAmount req"
  by (simp_all add: setDefaults_def Let_def)

lemma validSortFields_listed:
  "status_listed validSortFields field =
     (field \<in> {''created_at'', ''updated_at'', ''total_amount'', ''status''})"
  by (auto simp add: validSortFields_def)

lemma validateAndSetDefaults_accepts:
  "(fst (validateAndSetDefaults (Some req)) = None) =
     (SortBy (setDefaults req) \<in> {''created_at'', ''updated_at'', ''total_amount'', ''status''} \<and>
      SortOrder (setDefaults req) \<in> {''asc'', ''desc''} \<and>
      (\<forall>minAmount. MinAmount req = Some minAmount \<longrightarrow> \<not> minAmount < 0) \<and>
      (\<forall>maxAmount. MaxAmount req = Some maxAmount \<longrightarrow> \<not> maxAmount < 0) \<and>
      (\<forall>minAmount maxAmount.
          MinAmount req = Some minAmount \<and> MaxAmount req = Some maxAmount
            \<longrightarrow> \<not> minAmount > maxAmount))"
  by (simp add: Let_def validSortFields_listed setDefaults_fields(5,6) split: option.splits)

lemma ListOrders_rejected:
  "fst (validateAndSetDefaults (Some req)) \<noteq> None \<Longrightarrow>
   \<exists>m. ListOrders_Execute orderRepo (Some req) s =
          (Inl (Errorf ''validation failed: %w'' (ValidationError m)), s)"
  by (auto simp add: ListOrders_Execute_def Let_def NewValidationError_def
      split: option.splits if_splits prod.splits)

text \<open>
  Claim C9. \<open>validateAndSetDefaults\<close> writes the defaults into the request: a limit that
  is not positive becomes 20, a limit above 100 becomes 100, a negative offset becomes 0,
  an empty sort field becomes \<open>created_at\<close>, an empty sort order becomes \<open>desc\<close>. It then
  accepts the request exactly when the sort field is one of the four allowed, the sort
  order is \<open>asc\<close> or \<open>desc\<close>, neither amount bound is below zero and the lower bound is not
  above the upper one. In particular a negative bound, and a lower bound above the upper
  one, are refused. When the request is refused, \<open>Execute\<close> returns a validation error and
  the repository is left as it was, whatever it is: no method of it was called.
\<close>

theorem ListOrders_validateAndSetDefaults:
  "snd (validateAndSetDefaults (Some req)) = Some (setDefaults req) \<and>
   Limit (setDefaults req) =
     (if Limit req \<le> 0 then 20 else if Limit req > 100 then 100 else Limit req) \<and>
   Offset (setDefaults req) = (if Offset req < 0 then 0 else Offset req) \<and>
   SortBy (setDefaults req) = (if SortBy req = [] then ''created_at'' else SortBy req) \<and>
   SortOrder (setDefaults req) = (if SortOrder req = [] then ''desc'' else SortOrder req) \<and>
   (fst (validateAndSetDefaults (Some req)) = None) =
     (SortBy (setDefaults req) \<in> {''created_at'', ''updated_at'', ''total_amount'', ''status''} \<and>
      SortOrder (setDefaults req) \<in> {''asc'', ''desc''} \<and>
      (\<forall>minAmount. MinAmount req = Some minAmount \<longrightarrow> \<not> minAmount < 0) \<and>
      (\<forall>maxAmount. MaxAmount req = Some maxAmount \<longrightarrow> \<not> maxAmount < 0) \<and>
      (\<forall>minAmount maxAmount.
          MinAmount req = Some minAmount \<and> MaxAmount req = Some maxAmount
            \<longrightarrow> \<not> minAmount > maxAmount)) \<and>
   ((\<exists>minAmount. MinAmount req = Some minAmount \<and> minAmount < 0) \<or>
    (\<exists>maxAmount. MaxAmount req = Some maxAmount \<and> maxAmount < 0) \<or>
    (\<exists>minAmount maxAmount.
        MinAmount req = Some minAmount \<and> MaxAmount req = Some maxAmount \<and>
        minAmount > maxAmount)
      \<longrightarrow> fst (validateAndSetDefaults (Some req)) \<noteq> None) \<and>
   (fst (validateAndSetDefaults (Some req)) \<noteq> None \<longrightarrow>
      (\<exists>m. ListOrders_Execute orderRepo (Some req) s =
              (Inl (Errorf ''validation failed: %w'' (ValidationError m)), s)))"
proof (intro conjI)
  show "snd (validateAndSetDefaults (Some req)) = Some (setDefaults req)"
    by (simp add: Let_def)
  show "(fst (validateAndSetDefaults (Some req)) = None) =
     (SortBy (setDefaults req) \<in> {''created_at'', ''updated_at'', ''total_amount'', ''status''} \<and>
      SortOrder (setDefaults req) \<in> {''asc'', ''desc''} \<and>
      (\<forall>minAmount. MinAmount req = Some minAmount \<longrightarrow> \<not> minAmount < 0) \<and>
      (\<forall>maxAmount. MaxAmount req = Some maxAmount \<longrightarrow> \<not> maxAmount < 0) \<and>
      (\<forall>minAmount maxAmount.
          MinAmount req = Some minAmount \<and> MaxAmount req = Some maxAmount
            \<longrightarrow> \<not> minAmount > maxAmount))"
    by (rule validateAndSetDefaults_accepts)
  show "(\<exists>minAmount. MinAmount req = Some minAmount \<and> minAmount < 0) \<or>
    (\<exists>maxAmount. MaxAmount req = Some maxAmount \<and> maxAmount < 0) \<or>
    (\<exists>minAmount maxAmount.
        MinAmount req = Some minAmount \<and> MaxAmount req = Some maxAmount \<and>
        minAmount > maxAmount)
      \<longrightarrow> fst (validateAndSetDefaults (Some req)) \<noteq> None"
    unfolding validateAndSetDefaults_accepts by blast
  show "fst (validateAndSetDefaults (Some req)) \<noteq> None \<longrightarrow>
      (\<exists>m. ListOrders_Execute orderRepo (Some req) s =
              (Inl (Errorf ''validation failed: %w'' (ValidationError m)), s))"
    by (rule impI) (rule ListOrders_rejected)
qed (simp_all add: setDefaults_fields)

lemma example_list_fields:
  "Limit example_list_request = 0"
  "Offset example_list_request = - 3"
  "SortBy example_list_request = []"
  "SortOrder example_list_request = []"
  "MinAmount example_list_request = Some 10"
  "MaxAmount example_list_request = Some 5"
  by (simp_all add: example_list_request_def)

theorem ListOrders_validateAndSetDefaults_witness:
  "Limit (setDefaults example_list_request) = 20 \<and>
   Limit (setDefaults (example_list_request\<lparr>Limit := 500\<rparr>)) = 100 \<and>
   Offset (setDefaults example_list_request) = 0 \<and>
   SortBy (setDefaults example_list_request) = ''created_at'' \<and>
   SortOrder (setDefaults example_list_request) = ''desc'' \<and>
   fst (validateAndSetDefaults (Some example_list_request)) \<noteq> None \<and>
   fst (validateAndSetDefaults (Some (example_list_request\<lparr>MaxAmount := Some 20\<rparr>))) = None \<and>
   (\<exists>m. ListOrders_Execute counting_repository (Some example_list_request) 0 =
           (Inl (Errorf ''validation failed: %w'' (ValidationError m)), 0))"
proof -
  note w = ListOrders_validateAndSetDefaults [of example_list_request counting_repository 0]
  note w500 = ListOrders_validateAndSetDefaults
                [of "example_list_request\<lparr>Limit := 500\<rparr>" counting_repository 0]
  note wok = ListOrders_validateAndSetDefaults
               [of "example_list_request\<lparr>MaxAmount := Some 20\<rparr>" counting_repository 0]
  have limit: "Limit (setDefaults example_list_request) = 20"
    using w [THEN conjunct2, THEN conjunct1] by (simp add: example_list_fields)
  have limit500: "Limit (setDefaults (example_list_request\<lparr>Limit := 500\<rparr>)) = 100"
    using w500 [THEN conjunct2, THEN conjunct1] by simp
  have offset: "Offset (setDefaults example_list_request) = 0"
    using w [THEN conjunct2, THEN conjunct2, THEN conjunct1] by (simp add: example_list_fields)
  have sortby: "SortBy (setDefaults example_list_request) = ''created_at''"
    using w [THEN conjunct2, THEN conjunct2, THEN conjunct2, THEN conjunct1]
    by (simp add: example_list_fields)
  have sortorder: "SortOrder (setDefaults example_list_request) = ''desc''"
    using w [THEN conjunct2, THEN conjunct2, THEN conjunct2, THEN conjunct2, THEN conjunct1]
    by (simp add: example_list_fields)
  have refused: "fst (validateAndSetDefaults (Some example_list_request)) \<noteq> None"
    using w [THEN conjunct2, THEN conjunct2, THEN conjunct2, THEN conjunct2, THEN conjunct2,
             THEN conjunct2, THEN conjunct1]
    by (simp add: example_list_fields del: validateAndSetDefaults.simps)
  have accepted:
    "fst (validateAndSetDefaults (Some (example_list_request\<lparr>MaxAmount := Some 20\<rparr>))) = None"
    using wok [THEN conjunct2, THEN conjunct2, THEN conjunct2, THEN conjunct2, THEN conjunct2,
               THEN conjunct1]
    by (simp add: example_list_fields setDefaults_fields del: validateAndSetDefaults.simps)
  have untouched:
    "\<exists>m. ListOrders_Execute counting_repository (Some example_list_request) 0 =
           (Inl (Errorf ''validation failed: %w'' (ValidationError m)), 0)"
    using w [THEN conjunct2, THEN conjunct2, THEN conjunct2, THEN conjunct2, THEN conjunct2,
             THEN conjunct2, THEN conjunct2] refused
    by blast
  show ?thesis
    using limit limit500 offset sortby sortorder refused accepted untouched by blast
qed

subsection \<open>AddItem and non-positive prices and quantities\<close>









subsection \<open>Delete and the state machine\<close>

lemma spec_delete_allowed_iff:
  "spec_delete_allowed status = (status \<in> {''pending'', ''confirmed'', ''processing''})"
  by (auto simp add: spec_delete_allowed_def transition_table_def)

text \<open>
  Claim C4, as the specification states it, fails: the order of \<open>shipped_database\<close> is in
  status shipped, the state machine allows no transition from shipped to cancelled, and
  \<open>Delete\<close> succeeds and leaves the order cancelled.
\<close>

theorem Delete_state_machine_counterexample:
  "map_option row_status (orders shipped_database 1) = Some ''shipped'' \<and>
   \<not> spec_delete_allowed ''shipped'' \<and>
   \<not> canTransitionTo ((NewOrder 1 77 ''a@b.cd'' 0 :: rat Order)\<lparr>Status := ''shipped''\<rparr>)
        OrderStatusCancelled \<and>
   fst (pg_Delete no_fault 1 9 shipped_database) = None \<and>
   map_option row_status (orders (snd (pg_Delete no_fault 1 9 shipped_database)) 1) =
     Some ''cancelled''"
  by (simp add: shipped_database_def spec_delete_allowed_iff canTransitionTo_table
      transition_table_def OrderStatus_defs pg_Delete_def no_fault_def)

text \<open>
  Claim C4, amended. When the database raises no error, \<open>Delete\<close> looks at the stored
  status alone: if the order is stored and its status is none of delivered, refunded and
  cancelled, the status becomes cancelled and the update time the time of the call;
  otherwise (no such order, or one of these three statuses) no row is affected, the
  database is left as it was and the result is \<open>OrderNotFoundError\<close>. Every deletion the
  state machine allows is carried out. Among the seven statuses, the guard of \<open>Delete\<close> and
  the state machine differ on shipped alone, which \<open>Delete\<close> cancels.
\<close>

theorem Delete_guard:
  assumes "drv ExecDelete = None" and "drv RowsAffected = None"
  shows "pg_Delete drv orderID now db =
           (case orders db orderID of
              None \<Rightarrow> (Some (OrderNotFoundError orderID), db)
            | Some row \<Rightarrow>
                if row_status row \<in> {''delivered'', ''refunded'', ''cancelled''}
                then (Some (OrderNotFoundError orderID), db)
                else (None, db\<lparr>orders := (orders db)(orderID \<mapsto>
                              row\<lparr>row_status := ''cancelled'', row_updated_at := now\<rparr>)\<rparr>)) \<and>
         (spec_delete_allowed status \<longrightarrow>
            status \<notin> {''delivered'', ''refunded'', ''cancelled''}) \<and>
         (status \<in> set validStatuses \<longrightarrow>
            (status \<notin> {''delivered'', ''refunded'', ''cancelled''} \<and> \<not> spec_delete_allowed status)
              = (status = ''shipped''))"
  using assms
  by (auto simp add: pg_Delete_def Let_def NewOrderNotFoundError_def spec_delete_allowed_iff
      validStatuses_def OrderStatus_defs split: option.splits)

theorem Delete_guard_witness:
  "no_fault ExecDelete = None \<and> no_fault RowsAffected = None \<and>
   fst (pg_Delete no_fault 1 9 shipped_database) = None \<and>
   map_option row_status (orders (snd (pg_Delete no_fault 1 9 shipped_database)) 1) =
     Some ''cancelled'' \<and>
   pg_Delete no_fault 2 9 shipped_database = (Some (OrderNotFoundError 2), shipped_database) \<and>
   pg_Delete no_fault 1 10 (snd (pg_Delete no_fault 1 9 shipped_database)) =
     (Some (OrderNotFoundError 1), snd (pg_Delete no_fault 1 9 shipped_database))"
proof -
  have a: "no_fault ExecDelete = None" and b: "no_fault RowsAffected = None"
    by (simp_all add: no_fault_def)
  note w = Delete_guard [OF a b]
  show ?thesis
    unfolding w [of 1 9 shipped_database "''shipped''", THEN conjunct1]
              w [of 2 9 shipped_database "''shipped''", THEN conjunct1]
              w [of 1 10 _ "''shipped''", THEN conjunct1]
    by (simp add: a b shipped_database_def)
qed

subsection \<open>CreateOrder, then GetOrder\<close>


























end
